theory Spec2Isabelle
  imports Complex_Main
begin

section \<open>C doubles\<close>

text \<open>
  Both strategies compute on C \<^verbatim>\<open>double\<close>s and rely on the special values: performance values
  are finite, \<^verbatim>\<open>HUGE_VAL\<close> or NaN, and \<^verbatim>\<open>isnan\<close> selects branches. A double is modelled by its
  IEEE-754 class. A finite value is an exact real: rounding, overflow of finite arithmetic
  and the sign of zero are not modelled (a zero divisor counts as \<open>+0\<close>). Every comparison with
  a NaN is false, as in C.
\<close>

datatype double = Fin real | PInf | NInf | NaN

definition HUGE_VAL :: double where
  "HUGE_VAL = PInf"

fun isnan :: "double \<Rightarrow> bool" where
  "isnan NaN = True"
| "isnan _ = False"

fun dlt :: "double \<Rightarrow> double \<Rightarrow> bool" where
  "dlt (Fin a) (Fin b) = (a < b)"
| "dlt (Fin a) PInf = True"
| "dlt NInf (Fin b) = True"
| "dlt NInf PInf = True"
| "dlt _ _ = False"

definition dgt :: "double \<Rightarrow> double \<Rightarrow> bool" where
  "dgt a b = dlt b a"

fun dle :: "double \<Rightarrow> double \<Rightarrow> bool" where
  "dle NaN _ = False"
| "dle _ NaN = False"
| "dle (Fin a) (Fin b) = (a \<le> b)"
| "dle NInf _ = True"
| "dle _ PInf = True"
| "dle _ _ = False"

definition dge :: "double \<Rightarrow> double \<Rightarrow> bool" where
  "dge a b = dle b a"

fun dneg :: "double \<Rightarrow> double" where
  "dneg (Fin a) = Fin (- a)"
| "dneg PInf = NInf"
| "dneg NInf = PInf"
| "dneg NaN = NaN"

fun dadd :: "double \<Rightarrow> double \<Rightarrow> double" where
  "dadd NaN _ = NaN"
| "dadd _ NaN = NaN"
| "dadd (Fin a) (Fin b) = Fin (a + b)"
| "dadd PInf NInf = NaN"
| "dadd NInf PInf = NaN"
| "dadd PInf _ = PInf"
| "dadd _ PInf = PInf"
| "dadd NInf _ = NInf"
| "dadd _ NInf = NInf"

definition dsub :: "double \<Rightarrow> double \<Rightarrow> double" where
  "dsub a b = dadd a (dneg b)"

text \<open>The sign of a double: \<open>1\<close>, \<open>0\<close> or \<open>-1\<close> (used for products and quotients with infinities).\<close>

fun dsgn :: "double \<Rightarrow> int" where
  "dsgn (Fin a) = (if a > 0 then 1 else if a < 0 then -1 else 0)"
| "dsgn PInf = 1"
| "dsgn NInf = -1"
| "dsgn NaN = 0"

definition inf_of_sign :: "int \<Rightarrow> double" where
  "inf_of_sign k = (if k > 0 then PInf else if k < 0 then NInf else NaN)"

fun dmul :: "double \<Rightarrow> double \<Rightarrow> double" where
  "dmul NaN _ = NaN"
| "dmul _ NaN = NaN"
| "dmul (Fin a) (Fin b) = Fin (a * b)"
| "dmul a b = inf_of_sign (dsgn a * dsgn b)"

fun ddiv :: "double \<Rightarrow> double \<Rightarrow> double" where
  "ddiv NaN _ = NaN"
| "ddiv _ NaN = NaN"
| "ddiv (Fin a) (Fin b) = (if b \<noteq> 0 then Fin (a / b) else inf_of_sign (dsgn (Fin a)))"
| "ddiv (Fin a) _ = Fin 0"
| "ddiv a (Fin b) = inf_of_sign (dsgn a * (if b < 0 then -1 else 1))"
| "ddiv _ _ = NaN"

text \<open>\<^verbatim>\<open>log\<close> of \<^verbatim>\<open>math.h\<close>: the natural logarithm, \<open>-\<infinity>\<close> at zero, NaN below zero.\<close>

fun dlog :: "double \<Rightarrow> double" where
  "dlog (Fin a) = (if a > 0 then Fin (ln a) else if a = 0 then NInf else NaN)"
| "dlog PInf = PInf"
| "dlog _ = NaN"

definition double_of_nat :: "nat \<Rightarrow> double" where
  "double_of_nat n = Fin (real n)"


section \<open>PRO: \<^verbatim>\<open>build/strategies/pro.c\<close>\<close>

subsection \<open>Data\<close>

text \<open>
  The vertex library of PRO (\<^verbatim>\<open>libvertex.h\<close>) is not among the sources. A vertex carries an
  id, its coordinates and one performance value; a simplex is the array of its vertices;
  a point (\<^verbatim>\<open>hpoint_t\<close>) is an id with aligned coordinates.
\<close>

record hpoint =
  hp_id :: int
  hp_term :: "double list"

record pvertex =
  pv_id :: int
  pv_perf :: double
  pv_term :: "double list"

type_synonym psimplex = "pvertex list"

datatype simplex_init_t =
  SIMPLEX_INIT_UNKNOWN | SIMPLEX_INIT_RANDOM | SIMPLEX_INIT_POINT | SIMPLEX_INIT_POINT_FAST

datatype pro_state_t =
  PRO_STATE_UNKNONW | PRO_STATE_INIT | PRO_STATE_REFLECT | PRO_STATE_EXPAND_ONE
  | PRO_STATE_EXPAND_ALL | PRO_STATE_SHRINK | PRO_STATE_CONVERGED | PRO_STATE_MAX

datatype hmesg_status = HMESG_STATUS_REQ | HMESG_STATUS_OK | HMESG_STATUS_FAIL | HMESG_STATUS_BUSY

text \<open>
  The message of a fetch or a report: the status the strategy writes, the candidate and
  best point of a fetch, the candidate and performance of a report, and the error string.
\<close>

record hmesg =
  status :: hmesg_status
  fetch_cand :: hpoint
  fetch_best :: hpoint
  report_cand :: hpoint
  report_perf :: double
  mesg_string :: string



text \<open>The file-level variables of \<^verbatim>\<open>pro.c\<close>, with the static centroid of its convergence check
  and the two session values it reads (\<^verbatim>\<open>sess->cfg\<close>, \<^verbatim>\<open>sess->sig.range_len\<close>).\<close>

record pro_globals =
  strategy_best :: hpoint
  strategy_best_perf :: double
  init_method :: simplex_init_t
  init_percent :: double
  reflect_coefficient :: double
  expand_coefficient :: double
  contract_coefficient :: double
  shrink_coefficient :: double
  converge_fv_tol :: double
  converge_sz_tol :: double
  simplex_size :: int
  pro_state :: pro_state_t
  base :: psimplex
  test :: psimplex
  best_base :: nat
  best_test :: nat
  best_stash :: nat
  pro_next_id :: int
  send_idx :: int
  reported :: int
  pro_centroid :: pvertex
  sess_cfg :: "string \<rightharpoonup> string"
  range_len :: int

subsection \<open>Configuration: \<^verbatim>\<open>strategy_cfg\<close>\<close>

text \<open>
  The configuration keys are macros of \<^verbatim>\<open>defaults.h\<close>, which is not among the sources; they
  are modelled from the spec, which names the keys after the macros.
\<close>

definition CFGKEY_PRO_SIMPLEX_SIZE :: string where "CFGKEY_PRO_SIMPLEX_SIZE = ''PRO_SIMPLEX_SIZE''"
definition CFGKEY_PREFETCH_COUNT :: string where "CFGKEY_PREFETCH_COUNT = ''PREFETCH_COUNT''"
definition CFGKEY_PRO_INIT_METHOD :: string where "CFGKEY_PRO_INIT_METHOD = ''PRO_INIT_METHOD''"
definition CFGKEY_PRO_INIT_PERCENT :: string where "CFGKEY_PRO_INIT_PERCENT = ''PRO_INIT_PERCENT''"
definition CFGKEY_PRO_REFLECT :: string where "CFGKEY_PRO_REFLECT = ''PRO_REFLECT''"
definition CFGKEY_PRO_EXPAND :: string where "CFGKEY_PRO_EXPAND = ''PRO_EXPAND''"
definition CFGKEY_PRO_CONTRACT :: string where "CFGKEY_PRO_CONTRACT = ''PRO_CONTRACT''"
definition CFGKEY_PRO_SHRINK :: string where "CFGKEY_PRO_SHRINK = ''PRO_SHRINK''"
definition CFGKEY_PRO_CONVERGE_FV :: string where "CFGKEY_PRO_CONVERGE_FV = ''PRO_CONVERGE_FV''"
definition CFGKEY_PRO_CONVERGE_SZ :: string where "CFGKEY_PRO_CONVERGE_SZ = ''PRO_CONVERGE_SZ''"

text \<open>
  The C library: \<^verbatim>\<open>strtod\<close> returns the value and the unparsed rest of the string (the
  text at \<^verbatim>\<open>endp\<close>); \<^verbatim>\<open>atoi\<close> returns an integer. Both are parameters. The seeding of the
  random generator (\<^verbatim>\<open>srand\<close>) has no effect on the modelled state and is left out.
\<close>

record libc =
  strtod :: "string \<Rightarrow> double \<times> string"
  atoi :: "string \<Rightarrow> int"

definition tolower :: "char \<Rightarrow> char" where
  "tolower c = (let n = (of_char c :: nat) in if 65 \<le> n \<and> n \<le> 90 then char_of (n + 32) else c)"

text \<open>\<^verbatim>\<open>strcasecmp(a, b) == 0\<close>.\<close>

definition strcasecmp0 :: "string \<Rightarrow> string \<Rightarrow> bool" where
  "strcasecmp0 a b = (map tolower a = map tolower b)"

text \<open>
  One block of \<^verbatim>\<open>strategy_cfg\<close> that reads a real-valued key: \<open>store\<close> assigns the parsed
  value to its variable (the assignment happens before either check), \<open>bad\<close> is the range
  test the block applies to the updated state, \<open>einval\<close> and \<open>erange\<close> are the two error
  strings. \<open>Inl\<close> is \<^verbatim>\<open>return -1\<close> with \<^verbatim>\<open>mesg->data.string\<close>.
\<close>

definition cfg_real ::
  "libc \<Rightarrow> string \<Rightarrow> (double \<Rightarrow> pro_globals \<Rightarrow> pro_globals) \<Rightarrow> (pro_globals \<Rightarrow> bool)
     \<Rightarrow> string \<Rightarrow> string \<Rightarrow> pro_globals \<Rightarrow> string + pro_globals" where
  "cfg_real C key store bad einval erange s =
     (case sess_cfg s key of
        None \<Rightarrow> Inr s
      | Some cfgval \<Rightarrow>
          (case strtod C cfgval of (v, endp) \<Rightarrow>
             let s1 = store v s in
             if endp \<noteq> [] then Inl einval
             else if bad s1 then Inl erange
             else Inr s1))"

definition cfg_simplex_size :: "libc \<Rightarrow> pro_globals \<Rightarrow> pro_globals" where
  "cfg_simplex_size C s =
     (let s1 = (case sess_cfg s CFGKEY_PRO_SIMPLEX_SIZE of
                  None \<Rightarrow> s
                | Some cfgval \<Rightarrow> s\<lparr>simplex_size := atoi C cfgval\<rparr>)
      in if simplex_size s1 < range_len s1 + 1
         then s1\<lparr>simplex_size := range_len s1 + 1\<rparr> else s1)"

definition cfg_prefetch :: "libc \<Rightarrow> pro_globals \<Rightarrow> pro_globals" where
  "cfg_prefetch C s =
     (case sess_cfg s CFGKEY_PREFETCH_COUNT of
        None \<Rightarrow> s
      | Some cfgval \<Rightarrow>
          let retval = atoi C cfgval in
          if retval > 1 \<or> strcasecmp0 cfgval ''auto''
          then s\<lparr>sess_cfg := (sess_cfg s)(CFGKEY_PREFETCH_COUNT \<mapsto> ''1'')\<rparr>
          else if retval < 0
          then s\<lparr>sess_cfg := (sess_cfg s)(CFGKEY_PREFETCH_COUNT \<mapsto> ''0'')\<rparr>
          else s)"

definition cfg_init_method :: "pro_globals \<Rightarrow> string + pro_globals" where
  "cfg_init_method s =
     (case sess_cfg s CFGKEY_PRO_INIT_METHOD of
        None \<Rightarrow> Inr s
      | Some cfgval \<Rightarrow>
          if strcasecmp0 cfgval ''random'' then Inr (s\<lparr>init_method := SIMPLEX_INIT_RANDOM\<rparr>)
          else if strcasecmp0 cfgval ''point'' then Inr (s\<lparr>init_method := SIMPLEX_INIT_POINT\<rparr>)
          else if strcasecmp0 cfgval ''point_fast''
          then Inr (s\<lparr>init_method := SIMPLEX_INIT_POINT_FAST\<rparr>)
          else Inl ''Invalid value for PRO_INIT_METHOD configuration key.'')"

text \<open>Sequencing of the blocks: the first \<^verbatim>\<open>return -1\<close> ends the function.\<close>

definition andthen :: "'e + 'a \<Rightarrow> ('a \<Rightarrow> 'e + 'b) \<Rightarrow> 'e + 'b" where
  "andthen r f = (case r of Inl e \<Rightarrow> Inl e | Inr x \<Rightarrow> f x)"

definition strategy_cfg :: "libc \<Rightarrow> pro_globals \<Rightarrow> string + pro_globals" where
  "strategy_cfg C s =
     andthen (cfg_init_method (cfg_prefetch C (cfg_simplex_size C s))) (\<lambda>s.
     andthen (cfg_real C CFGKEY_PRO_INIT_PERCENT (\<lambda>v s. s\<lparr>init_percent := v\<rparr>)
        (\<lambda>s. dle (init_percent s) (Fin 0) \<or> dgt (init_percent s) (Fin 1))
        ''Invalid value for PRO_INIT_PERCENT configuration key.''
        ''Configuration key PRO_INIT_PERCENT must be between 0.0 and 1.0 (exclusive).'' s) (\<lambda>s.
     andthen (cfg_real C CFGKEY_PRO_REFLECT (\<lambda>v s. s\<lparr>reflect_coefficient := v\<rparr>)
        (\<lambda>s. dle (reflect_coefficient s) (Fin 0))
        ''Invalid value for PRO_REFLECT configuration key.''
        ''Configuration key PRO_REFLECT must be positive.'' s) (\<lambda>s.
     andthen (cfg_real C CFGKEY_PRO_EXPAND (\<lambda>v s. s\<lparr>expand_coefficient := v\<rparr>)
        (\<lambda>s. dle (reflect_coefficient s) (Fin 1))
        ''Invalid value for PRO_EXPAND configuration key.''
        ''Configuration key PRO_EXPAND must be greater than 1.0.'' s) (\<lambda>s.
     andthen (cfg_real C CFGKEY_PRO_CONTRACT (\<lambda>v s. s\<lparr>contract_coefficient := v\<rparr>)
        (\<lambda>s. dle (reflect_coefficient s) (Fin 0) \<or> dge (reflect_coefficient s) (Fin 1))
        ''Invalid value for PRO_CONTRACT configuration key.''
        ''Configuration key PRO_CONTRACT must be between 0.0 and 1.0 (exclusive).'' s) (\<lambda>s.
     andthen (cfg_real C CFGKEY_PRO_SHRINK (\<lambda>v s. s\<lparr>shrink_coefficient := v\<rparr>)
        (\<lambda>s. dle (reflect_coefficient s) (Fin 0) \<or> dge (reflect_coefficient s) (Fin 1))
        ''Invalid value for PRO_SHRINK configuration key.''
        ''Configuration key PRO_SHRINK must be between 0.0 and 1.0 (exclusive).'' s) (\<lambda>s.
     andthen (cfg_real C CFGKEY_PRO_CONVERGE_FV (\<lambda>v s. s\<lparr>converge_fv_tol := v\<rparr>)
        (\<lambda>s. False)
        ''Invalid value for PRO_CONVERGE_FV configuration key.'' [] s) (\<lambda>s.
     cfg_real C CFGKEY_PRO_CONVERGE_SZ (\<lambda>v s. s\<lparr>converge_sz_tol := v\<rparr>)
        (\<lambda>s. False)
        ''Invalid value for PRO_CONVERGE_SZ configuration key.'' [] s)))))))"


subsection \<open>The state machine\<close>


text \<open>
  \<^verbatim>\<open>vertex_copy\<close> and \<^verbatim>\<open>simplex_copy\<close> (libvertex, not in the sources) are modelled as the
  assignment of the whole vertex, respectively of every vertex: the spec names no part
  that a copy leaves behind.
\<close>

text \<open>\<^verbatim>\<open>pro_next_state(input, best_in)\<close>: the transition taken once the candidate simplex
  \<open>input\<close> is measured. The pair is the C return value and the new globals.\<close>

definition pro_next_state :: "pro_globals \<Rightarrow> psimplex \<Rightarrow> nat \<Rightarrow> int \<times> pro_globals" where
  "pro_next_state s input best_in =
     (case pro_state s of
        PRO_STATE_INIT \<Rightarrow>
          (0, s\<lparr>base := input, best_base := best_in, pro_state := PRO_STATE_REFLECT\<rparr>)
      | PRO_STATE_SHRINK \<Rightarrow>
          (0, s\<lparr>base := input, best_base := best_in, pro_state := PRO_STATE_REFLECT\<rparr>)
      | PRO_STATE_REFLECT \<Rightarrow>
          if dlt (pv_perf (input ! best_in)) (pv_perf (base s ! best_base s))
          then (0, s\<lparr>base := input, best_stash := best_test s,
                      pro_state := PRO_STATE_EXPAND_ONE\<rparr>)
          else (0, s\<lparr>pro_state := PRO_STATE_SHRINK\<rparr>)
      | PRO_STATE_EXPAND_ONE \<Rightarrow>
          if dlt (pv_perf (input ! 0)) (pv_perf (base s ! best_base s))
          then (0, s\<lparr>pro_state := PRO_STATE_EXPAND_ALL\<rparr>)
          else (0, s\<lparr>best_base := best_in, pro_state := PRO_STATE_REFLECT\<rparr>)
      | PRO_STATE_EXPAND_ALL \<Rightarrow>
          (let s1 = (if dlt (pv_perf (input ! best_in)) (pv_perf (base s ! best_base s))
                     then s\<lparr>base := input, best_base := best_in\<rparr> else s)
           in (0, s1\<lparr>pro_state := PRO_STATE_REFLECT\<rparr>))
      | _ \<Rightarrow> (-1, s))"






subsection \<open>The interface: \<^verbatim>\<open>strategy_fetch\<close> and \<^verbatim>\<open>strategy_report\<close>\<close>



definition update_best :: "hmesg \<Rightarrow> pro_globals \<Rightarrow> pro_globals" where
  "update_best mesg s =
     (if dgt (strategy_best_perf s) (report_perf mesg)
      then s\<lparr>strategy_best_perf := report_perf mesg, strategy_best := report_cand mesg\<rparr>
      else s)"



section \<open>ANGEL: \<^verbatim>\<open>src/plugins/strategies/angel.c\<close>\<close>

subsection \<open>Data\<close>

text \<open>
  A performance vector (\<^verbatim>\<open>hperf_t\<close>) is the list of its objectives; its \<^verbatim>\<open>len\<close> is the length
  of the list. A vertex carries an id, a performance vector and its coordinates.
\<close>

type_synonym hperf = "double list"

record vertex =
  v_id :: int
  v_perf :: hperf
  v_term :: "double list"

type_synonym simplex_t = "vertex list"

record span_t =
  span_min :: double
  span_max :: double

datatype reject_method_t =
  REJECT_METHOD_UNKNOWN | REJECT_METHOD_PENALTY | REJECT_METHOD_RANDOM | REJECT_METHOD_MAX

datatype simplex_state_t =
  SIMPLEX_STATE_UNKNONW | SIMPLEX_STATE_INIT | SIMPLEX_STATE_REFLECT | SIMPLEX_STATE_EXPAND
  | SIMPLEX_STATE_CONTRACT | SIMPLEX_STATE_SHRINK | SIMPLEX_STATE_CONVERGED | SIMPLEX_STATE_MAX

text \<open>
  \<^verbatim>\<open>data->next\<close> points to a vertex of the simplex or to one of the scratch vertices; a write
  through it changes that vertex. The pointer is modelled by the place it points to.
\<close>

datatype vref = NextNull | NextSimplex nat | NextReflect | NextExpand | NextContract

datatype hflow_status = HFLOW_ACCEPT | HFLOW_WAIT | HFLOW_UNSET

record htrial =
  trial_point :: hpoint
  trial_perf :: hperf

text \<open>\<^verbatim>\<open>data_t\<close>, with the two static counters of \<^verbatim>\<open>check_convergence\<close>, the length of the
  search space and the two keys the strategy writes to the session configuration.\<close>

record data =
  space_len :: int
  best :: hpoint
  best_perf :: hperf
  init_point :: vertex
  init_radius :: double
  reject_type :: reject_method_t
  reflect_val :: double
  expand_val :: double
  contract_val :: double
  shrink_val :: double
  fval_tol :: double
  size_tol :: double
  dist_tol :: double
  move_len :: double
  space_size :: double
  tol_cnt :: int
  leeway :: "double list"
  mult :: double
  anchor :: bool
  loose :: bool
  samesimplex :: bool
  state :: simplex_state_t
  centroid :: vertex
  reflect :: vertex
  expand :: vertex
  contract :: vertex
  init_simplex :: simplex_t
  simplex :: simplex_t
  nextp :: vref
  index_best :: nat
  index_worst :: nat
  index_curr :: int
  next_id :: int
  phase :: int
  perf_n :: int
  thresh :: "double list"
  spans :: "span_t list"
  flat_cnt :: int
  cnt :: int
  cfg_converged :: "string option"
  cfg_angel_phase :: "int option"

text \<open>
  The environment of the plugin: the functions of \<^verbatim>\<open>libvertex\<close> and of \<^verbatim>\<open>hcfg\<close> that
  \<^verbatim>\<open>angel.c\<close> calls and whose code is not among the sources. They are parameters: nothing
  is assumed of what they compute. Each takes the values its C counterpart reads and
  returns the object it writes; the search space and the session configuration are fixed
  inside them. A result \<open>None\<close> is a non-zero return value.
\<close>

record env =
  lv_vertex_transform :: "vertex \<Rightarrow> vertex \<Rightarrow> double \<Rightarrow> vertex \<Rightarrow> vertex"
  lv_simplex_transform :: "simplex_t \<Rightarrow> vertex \<Rightarrow> double \<Rightarrow> simplex_t \<Rightarrow> simplex_t"
  lv_vertex_norm :: "vertex \<Rightarrow> vertex \<Rightarrow> double"
  lv_vertex_inbounds :: "vertex \<Rightarrow> bool"
  lv_simplex_collapsed :: "simplex_t \<Rightarrow> bool"
  lv_simplex_centroid :: "simplex_t \<Rightarrow> vertex \<Rightarrow> vertex"
  lv_vertex_minimum :: "vertex \<Rightarrow> vertex option"
  lv_vertex_maximum :: "vertex \<Rightarrow> vertex option"
  lv_vertex_parse :: "string \<Rightarrow> vertex \<Rightarrow> vertex option"
  lv_vertex_center :: "vertex \<Rightarrow> vertex option"
  lv_simplex_set :: "simplex_t \<Rightarrow> vertex \<Rightarrow> double \<Rightarrow> simplex_t option"
  lv_align :: "double list \<Rightarrow> double list option"
  hcfg_get :: "string \<Rightarrow> string option"
  hcfg_bool :: "string \<Rightarrow> bool"
  hcfg_int :: "string \<Rightarrow> int"
  hcfg_real :: "string \<Rightarrow> double"
  hcfg_arr_len :: "string \<Rightarrow> int"
  hcfg_arr_real :: "string \<Rightarrow> nat \<Rightarrow> double"
  lv_simplex_init :: "simplex_t \<Rightarrow> int \<Rightarrow> simplex_t option"
  lv_vertex_init :: "vertex \<Rightarrow> int \<Rightarrow> vertex option"
  hperf_init :: "hperf \<Rightarrow> int \<Rightarrow> hperf option"
  hpoint_init :: "hpoint \<Rightarrow> int \<Rightarrow> hpoint option"
  realloc_double :: "double list \<Rightarrow> int \<Rightarrow> double list option"
  realloc_span :: "span_t list \<Rightarrow> int \<Rightarrow> span_t list option"

text \<open>Dereferencing \<^verbatim>\<open>data->next\<close>. A null pointer is never dereferenced after
  \<^verbatim>\<open>strategy_init\<close>; the model reads an empty vertex there and ignores the write.\<close>

definition vnull :: vertex where
  "vnull = \<lparr>v_id = 0, v_perf = [], v_term = []\<rparr>"

definition vget :: "data \<Rightarrow> vref \<Rightarrow> vertex" where
  "vget s r =
     (case r of
        NextNull \<Rightarrow> vnull
      | NextSimplex i \<Rightarrow> simplex s ! i
      | NextReflect \<Rightarrow> reflect s
      | NextExpand \<Rightarrow> expand s
      | NextContract \<Rightarrow> contract s)"

definition vset :: "data \<Rightarrow> vref \<Rightarrow> vertex \<Rightarrow> data" where
  "vset s r v =
     (case r of
        NextNull \<Rightarrow> s
      | NextSimplex i \<Rightarrow> s\<lparr>simplex := (simplex s)[i := v]\<rparr>
      | NextReflect \<Rightarrow> s\<lparr>reflect := v\<rparr>
      | NextExpand \<Rightarrow> s\<lparr>expand := v\<rparr>
      | NextContract \<Rightarrow> s\<lparr>contract := v\<rparr>)"

text \<open>
  Modelled from the spec: \<^verbatim>\<open>hperf_reset\<close> (\<^verbatim>\<open>hperf.c\<close>, not in the sources) "set[s] the
  vertex's performance to \<open>+\<infinity>\<close> across all objectives".
\<close>

definition hperf_reset :: "hperf \<Rightarrow> hperf" where
  "hperf_reset p = map (\<lambda>_. HUGE_VAL) p"

text \<open>
  Modelled from the spec: \<^verbatim>\<open>vertex_point\<close> (libvertex, not in the sources) "projects \<open>v\<close> onto
  aligned legal values", and "a vertex carries the same id as the point it represents".
  The projection is the parameter \<open>lv_align\<close>.
\<close>

definition vertex_point :: "env \<Rightarrow> vertex \<Rightarrow> hpoint option" where
  "vertex_point E v =
     (case lv_align E (v_term v) of
        None \<Rightarrow> None
      | Some t \<Rightarrow> Some \<lparr>hp_id = v_id v, hp_term = t\<rparr>)"

text \<open>The objective of the current phase: \<^verbatim>\<open>v.perf.obj[data->phase]\<close>.\<close>

definition obj_at :: "data \<Rightarrow> vertex \<Rightarrow> double" where
  "obj_at s v = v_perf v ! nat (phase s)"


subsection \<open>Helpers of the state machine\<close>

text \<open>
  The configuration keys of ANGEL are macros (\<^verbatim>\<open>CFGKEY_...\<close>) whose definitions are not among
  the sources; each is modelled by the string of its name, as the spec lists them.
  Copies (\<^verbatim>\<open>vertex_copy\<close>, \<^verbatim>\<open>simplex_copy\<close>, \<^verbatim>\<open>hperf_copy\<close>, \<^verbatim>\<open>hpoint_copy\<close>) are assignments
  of the whole object; a copy that fails for lack of memory is not modelled.
\<close>

definition make_initial_simplex :: "env \<Rightarrow> data \<Rightarrow> int \<times> data" where
  "make_initial_simplex E s =
     (case (case hcfg_get E ''INIT_POINT'' of
              Some cfgval \<Rightarrow> lv_vertex_parse E cfgval (init_point s)
            | None \<Rightarrow> lv_vertex_center E (init_point s)) of
        None \<Rightarrow> (-1, s)
      | Some ip \<Rightarrow>
          let s1 = s\<lparr>init_point := ip\<rparr>
          in (case lv_simplex_set E (init_simplex s1) (init_point s1) (init_radius s1) of
                None \<Rightarrow> (-1, s1)
              | Some sx \<Rightarrow> (0, s1\<lparr>init_simplex := sx\<rparr>)))"

text \<open>\<^verbatim>\<open>update_centroid\<close>: the indices of the best and the worst vertex for the current phase,
  then the centroid of the simplex with the id of the worst vertex set to 0 for the call.\<close>

definition update_centroid :: "env \<Rightarrow> data \<Rightarrow> data" where
  "update_centroid E s =
     (let (ib, iw) =
            fold (\<lambda>i (ib, iw).
                    (if dlt (obj_at s (simplex s ! i)) (obj_at s (simplex s ! ib)) then i else ib,
                     if dgt (obj_at s (simplex s ! i)) (obj_at s (simplex s ! iw)) then i else iw))
              [1 ..< length (simplex s)] (0, 0);
          masked = (simplex s)[iw := (simplex s ! iw)\<lparr>v_id := 0\<rparr>]
      in s\<lparr>index_best := ib, index_worst := iw,
            centroid := lv_simplex_centroid E masked (centroid s)\<rparr>)"

text \<open>The anchor search of \<^verbatim>\<open>increment_phase\<close>: the index of the vertex nearest to the
  centroid, \<open>-1\<close> when no distance is below \<^verbatim>\<open>HUGE_VAL\<close>.\<close>

definition anchor_index :: "env \<Rightarrow> data \<Rightarrow> int" where
  "anchor_index E s =
     snd (fold (\<lambda>i (min_dist, idx).
                  let curr_dist = lv_vertex_norm E (centroid s) (simplex s ! i)
                  in if dgt min_dist curr_dist then (curr_dist, int i) else (min_dist, idx))
            [0 ..< length (simplex s)] (HUGE_VAL, -1))"

text \<open>\<^verbatim>\<open>increment_phase\<close> in three parts: the threshold of the phase that ends and the
  step to the next phase, with the copy of the best vertex to the centroid; the optional
  \<^verbatim>\<open>make_initial_simplex\<close>; and the rest, from \<^verbatim>\<open>simplex_copy\<close> on. Where the anchor search
  finds no index, the C code writes to \<^verbatim>\<open>simplex.vertex[-1]\<close>; the model leaves the simplex
  as it is there.\<close>

definition begin_phase :: "data \<Rightarrow> data" where
  "begin_phase s =
     (let s1 = (if phase s \<ge> 0
                then let p = nat (phase s);
                         tval = dadd (dmul (dsub (span_max (spans s ! p)) (span_min (spans s ! p)))
                                       (leeway s ! p))
                                  (span_min (spans s ! p))
                     in s\<lparr>thresh := (thresh s)[p := tval]\<rparr>
                else s);
          s2 = s1\<lparr>phase := phase s1 + 1\<rparr>;
          s3 = s2\<lparr>cfg_angel_phase := Some (phase s2)\<rparr>
      in s3\<lparr>centroid := simplex s3 ! index_best s3\<rparr>)"

definition finish_phase :: "env \<Rightarrow> data \<Rightarrow> data" where
  "finish_phase E s =
     (let s1 = s\<lparr>simplex := init_simplex s\<rparr>;
          s2 = (if hp_id (best s1) > 0 \<and> anchor s1
                then let idx = anchor_index E s1
                     in if idx \<ge> 0
                        then s1\<lparr>simplex := (simplex s1)[nat idx := centroid s1]\<rparr>
                        else s1
                else s1)
      in s2\<lparr>best_perf := hperf_reset (best_perf s2),
            best := (best s2)\<lparr>hp_id := 0\<rparr>,
            state := SIMPLEX_STATE_INIT\<rparr>)"

definition increment_phase :: "env \<Rightarrow> data \<Rightarrow> int \<times> data" where
  "increment_phase E s =
     (let s1 = begin_phase s
      in case (if \<not> samesimplex s1 then make_initial_simplex E s1 else (0, s1)) of
           (rc, s2) \<Rightarrow> if rc \<noteq> 0 then (-1, s2) else (0, finish_phase E s2))"

text \<open>The label \<^verbatim>\<open>converged\<close> of \<^verbatim>\<open>check_convergence\<close>. The return value of
  \<^verbatim>\<open>increment_phase\<close> is dropped there.\<close>

definition converged :: "env \<Rightarrow> data \<Rightarrow> data" where
  "converged E s =
     (if phase s = perf_n s - 1
      then s\<lparr>state := SIMPLEX_STATE_CONVERGED, cfg_converged := Some ''1''\<rparr>
      else snd (increment_phase E s))"

text \<open>The flatness test: no vertex differs from vertex 0 in the objective of the phase.\<close>

definition flat :: "data \<Rightarrow> bool" where
  "flat s =
     list_all (\<lambda>i. \<not> (dlt (obj_at s (simplex s ! i)) (obj_at s (simplex s ! 0))
                     \<or> dlt (obj_at s (simplex s ! 0)) (obj_at s (simplex s ! i))))
       [1 ..< length (simplex s)]"

definition fval_err :: "data \<Rightarrow> double" where
  "fval_err s =
     ddiv (fold (\<lambda>i acc. dadd acc (dmul (dsub (obj_at s (simplex s ! i)) (obj_at s (centroid s)))
                                       (dsub (obj_at s (simplex s ! i)) (obj_at s (centroid s)))))
             [0 ..< length (simplex s)] (Fin 0))
       (double_of_nat (length (simplex s)))"

definition size_max :: "env \<Rightarrow> data \<Rightarrow> double" where
  "size_max E s =
     fold (\<lambda>i acc. let dist = lv_vertex_norm E (simplex s ! i) (centroid s)
                   in if dlt acc dist then dist else acc)
       [0 ..< length (simplex s)] (Fin 0)"

text \<open>The part of \<^verbatim>\<open>check_convergence\<close> after the flatness counter.\<close>

definition check_tolerances :: "env \<Rightarrow> data \<Rightarrow> data" where
  "check_tolerances E s =
     (if lv_simplex_collapsed E (simplex s) then converged E s
      else if \<not> isnan (dist_tol s)
      then (if dlt (move_len s) (dist_tol s)
            then (let s1 = s\<lparr>cnt := cnt s + 1\<rparr>
                  in if cnt s1 \<ge> tol_cnt s1 then converged E (s1\<lparr>cnt := 0\<rparr>) else s1)
            else s\<lparr>cnt := 0\<rparr>)
      else if dlt (fval_err s) (fval_tol s) \<and> dlt (size_max E s) (size_tol s)
      then converged E s
      else s)"

definition check_convergence :: "env \<Rightarrow> data \<Rightarrow> data" where
  "check_convergence E s =
     (if flat s
      then (let s1 = s\<lparr>flat_cnt := flat_cnt s + 1\<rparr>
            in if flat_cnt s1 \<ge> 3 then converged E (s1\<lparr>flat_cnt := 0\<rparr>)
               else check_tolerances E s1)
      else check_tolerances E (s\<lparr>flat_cnt := 0\<rparr>))"


subsection \<open>The Nelder-Mead state machine\<close>

text \<open>Replacing the worst vertex of the simplex (\<^verbatim>\<open>vertex_copy\<close> onto
  \<^verbatim>\<open>simplex.vertex[index_worst]\<close>).\<close>

definition replace_worst :: "data \<Rightarrow> vertex \<Rightarrow> data" where
  "replace_worst s v = s\<lparr>simplex := (simplex s)[index_worst s := v]\<rparr>"

definition nm_state_transition :: "env \<Rightarrow> data \<Rightarrow> int \<times> data" where
  "nm_state_transition E s =
     (let step_curr = (\<lambda>s.
            let s1 = s\<lparr>index_curr := index_curr s + 1\<rparr>
            in if index_curr s1 = space_len s1 + 1
               then (update_centroid E s1)\<lparr>state := SIMPLEX_STATE_REFLECT, index_curr := 0\<rparr>
               else s1)
      in case state s of
           SIMPLEX_STATE_INIT \<Rightarrow> (0, step_curr s)
         | SIMPLEX_STATE_SHRINK \<Rightarrow> (0, step_curr s)
         | SIMPLEX_STATE_REFLECT \<Rightarrow>
             if dlt (obj_at s (reflect s)) (obj_at s (simplex s ! index_best s))
             then (0, s\<lparr>state := SIMPLEX_STATE_EXPAND\<rparr>)
             else if dlt (obj_at s (reflect s)) (obj_at s (simplex s ! index_worst s))
             then (0, update_centroid E (replace_worst s (reflect s)))
             else (0, s\<lparr>state := SIMPLEX_STATE_CONTRACT\<rparr>)
         | SIMPLEX_STATE_EXPAND \<Rightarrow>
             (let s1 = (if dlt (obj_at s (expand s)) (obj_at s (simplex s ! index_best s))
                        then replace_worst s (expand s)
                        else replace_worst s (reflect s))
              in (0, (update_centroid E s1)\<lparr>state := SIMPLEX_STATE_REFLECT\<rparr>))
         | SIMPLEX_STATE_CONTRACT \<Rightarrow>
             if dlt (obj_at s (contract s)) (obj_at s (simplex s ! index_worst s))
             then (0, (update_centroid E (replace_worst s (contract s)))
                         \<lparr>state := SIMPLEX_STATE_REFLECT\<rparr>)
             else (0, s\<lparr>index_curr := -1, state := SIMPLEX_STATE_SHRINK\<rparr>)
         | _ \<Rightarrow> (-1, s))"

text \<open>The last statement of \<^verbatim>\<open>nm_next_vertex\<close>: \<^verbatim>\<open>hperf_reset(&data->next->perf)\<close>.\<close>

definition reset_next :: "data \<Rightarrow> data" where
  "reset_next s =
     vset s (nextp s) ((vget s (nextp s))\<lparr>v_perf := hperf_reset (v_perf (vget s (nextp s)))\<rparr>)"

definition nm_next_vertex :: "env \<Rightarrow> data \<Rightarrow> int \<times> data" where
  "nm_next_vertex E s =
     (case state s of
        SIMPLEX_STATE_INIT \<Rightarrow>
          (0, reset_next (s\<lparr>nextp := NextSimplex (nat (index_curr s))\<rparr>))
      | SIMPLEX_STATE_REFLECT \<Rightarrow>
          (let s1 = s\<lparr>reflect := lv_vertex_transform E (centroid s)
                                  (simplex s ! index_worst s) (reflect_val s) (reflect s)\<rparr>;
               s2 = s1\<lparr>move_len := lv_vertex_norm E (simplex s1 ! index_worst s1) (reflect s1)\<rparr>;
               s3 = s2\<lparr>move_len := ddiv (move_len s2) (space_size s2)\<rparr>
           in (0, reset_next (s3\<lparr>nextp := NextReflect\<rparr>)))
      | SIMPLEX_STATE_EXPAND \<Rightarrow>
          (let s1 = s\<lparr>expand := lv_vertex_transform E (centroid s)
                                 (simplex s ! index_worst s) (expand_val s) (expand s)\<rparr>
           in (0, reset_next (s1\<lparr>nextp := NextExpand\<rparr>)))
      | SIMPLEX_STATE_CONTRACT \<Rightarrow>
          (let s1 = s\<lparr>contract := lv_vertex_transform E (simplex s ! index_worst s)
                                   (centroid s) (dneg (contract_val s)) (contract s)\<rparr>
           in (0, reset_next (s1\<lparr>nextp := NextContract\<rparr>)))
      | SIMPLEX_STATE_SHRINK \<Rightarrow>
          (let s1 = (if index_curr s = -1
                     then s\<lparr>simplex := lv_simplex_transform E (simplex s)
                                          (simplex s ! index_best s) (dneg (shrink_val s))
                                          (simplex s),
                            index_curr := 0\<rparr>
                     else s)
           in (0, reset_next (s1\<lparr>nextp := NextSimplex (nat (index_curr s1))\<rparr>)))
      | SIMPLEX_STATE_CONVERGED \<Rightarrow>
          (0, reset_next (s\<lparr>nextp := NextSimplex (index_best s)\<rparr>))
      | _ \<Rightarrow> (-1, s))"

text \<open>
  \<^verbatim>\<open>nm_algorithm\<close>. \<open>nm_algorithm_body\<close> is one pass through the body of its do-while loop,
  after the test for \<^verbatim>\<open>CONVERGED\<close>; a non-zero first component is \<^verbatim>\<open>return -1\<close>. The loop runs
  until the next vertex is in bounds; it need not end, so the result is optional (\<open>None\<close>:
  the loop never returns).
\<close>

definition nm_algorithm_body :: "env \<Rightarrow> data \<Rightarrow> int \<times> data" where
  "nm_algorithm_body E s =
     (case nm_state_transition E s of (rc1, s1) \<Rightarrow>
        if rc1 \<noteq> 0 then (-1, s1)
        else
          let s2 = (if state s1 = SIMPLEX_STATE_REFLECT
                    then check_convergence E (update_centroid E s1) else s1)
          in case nm_next_vertex E s2 of (rc2, s3) \<Rightarrow>
               if rc2 \<noteq> 0 then (-1, s3) else (0, s3))"

partial_function (option) nm_algorithm :: "env \<Rightarrow> data \<Rightarrow> (int \<times> data) option" where
  "nm_algorithm E s =
     (if state s = SIMPLEX_STATE_CONVERGED then Some (0, s)
      else
        case nm_algorithm_body E s of (rc, s') \<Rightarrow>
          if rc \<noteq> 0 then Some (-1, s')
          else if \<not> lv_vertex_inbounds E (vget s' (nextp s')) then nm_algorithm E s'
          else Some (0, s'))"

subsection \<open>The interface: \<^verbatim>\<open>strategy_generate\<close> and \<^verbatim>\<open>strategy_analyze\<close>\<close>

text \<open>\<^verbatim>\<open>strategy_generate(flow, point)\<close>: the return value, the flow status and the point it
  leaves (both unchanged where the function does not write them), and the new data.\<close>

definition strategy_generate ::
  "env \<Rightarrow> data \<Rightarrow> hflow_status \<Rightarrow> hpoint \<Rightarrow> int \<times> hflow_status \<times> hpoint \<times> data" where
  "strategy_generate E s flow point =
     (if v_id (vget s (nextp s)) = next_id s then (0, HFLOW_WAIT, point, s)
      else
        let s1 = vset s (nextp s) ((vget s (nextp s))\<lparr>v_id := next_id s\<rparr>)
        in case vertex_point E (vget s1 (nextp s1)) of
             None \<Rightarrow> (-1, flow, point, s1)
           | Some p \<Rightarrow> (0, HFLOW_ACCEPT, p, s1))"

text \<open>The first loop of \<^verbatim>\<open>strategy_analyze\<close>: the observed value ranges.\<close>

definition update_span :: "hperf \<Rightarrow> span_t list \<Rightarrow> nat \<Rightarrow> span_t list" where
  "update_span ob sp i =
     (let sp1 = (if dgt (span_min (sp ! i)) (ob ! i)
                 then sp[i := (sp ! i)\<lparr>span_min := ob ! i\<rparr>] else sp)
      in if dlt (span_max (sp1 ! i)) (ob ! i) \<and> dlt (ob ! i) HUGE_VAL
         then sp1[i := (sp1 ! i)\<lparr>span_max := ob ! i\<rparr>] else sp1)"

definition update_spans :: "data \<Rightarrow> hperf \<Rightarrow> span_t list" where
  "update_spans s ob = fold (\<lambda>i sp. update_span ob sp i) [0 ..< nat (perf_n s)] (spans s)"

text \<open>
  The second loop: \<open>i\<close> runs from \<open>phase - 1\<close> down to \<open>0\<close>; the pair is \<^verbatim>\<open>penalty\<close> and
  \<^verbatim>\<open>penalty_base\<close>.
\<close>

definition penalty_step :: "data \<Rightarrow> hperf \<Rightarrow> nat \<Rightarrow> double \<times> double \<Rightarrow> double \<times> double" where
  "penalty_step s ob i = (\<lambda>(penalty, penalty_base).
     (if dgt (ob ! i) (thresh s ! i)
      then (let p1 = (if \<not> loose s then dadd penalty penalty_base else penalty);
                fraction = ddiv (dsub (ob ! i) (thresh s ! i))
                             (dsub (span_max (spans s ! i)) (thresh s ! i))
            in dadd p1 (ddiv (Fin 1) (dsub (Fin 1) (dlog fraction))))
      else penalty,
      dmul penalty_base (Fin 2)))"

definition penalty_loop :: "data \<Rightarrow> hperf \<Rightarrow> double" where
  "penalty_loop s ob = fst (fold (penalty_step s ob) (rev [0 ..< nat (phase s)]) (Fin 0, Fin 1))"

text \<open>The performance of the analysed point after the penalty: the vector that
  \<^verbatim>\<open>strategy_analyze\<close> leaves in \<^verbatim>\<open>data->next->perf\<close>. \<open>s\<close> has the updated value ranges.\<close>

definition penalised :: "data \<Rightarrow> hperf \<Rightarrow> hperf" where
  "penalised s ob =
     (let penalty = penalty_loop s ob
      in if dgt penalty (Fin 0)
         then (let p1 = (if loose s then dadd penalty (Fin 1) else penalty);
                   p = nat (phase s);
                   width = dsub (span_max (spans s ! p)) (span_min (spans s ! p))
               in ob[p := dadd (ob ! p) (dmul (dmul p1 width) (mult s))])
         else ob)"

text \<open>\<open>analyze_best\<close>: \<^verbatim>\<open>strategy_analyze\<close> up to the update of the best point, for a trial
  whose id was accepted.\<close>

definition analyze_best :: "data \<Rightarrow> htrial \<Rightarrow> data" where
  "analyze_best s trial =
     (let s1 = vset s (nextp s) ((vget s (nextp s))\<lparr>v_perf := trial_perf trial\<rparr>);
          s2 = s1\<lparr>spans := update_spans s1 (v_perf (vget s1 (nextp s1)))\<rparr>;
          s3 = vset s2 (nextp s2)
                 ((vget s2 (nextp s2))\<lparr>v_perf := penalised s2 (v_perf (vget s2 (nextp s2)))\<rparr>)
      in if best_perf s3 = [] \<or> dgt (best_perf s3 ! nat (phase s3))
                                     (obj_at s3 (vget s3 (nextp s3)))
         then s3\<lparr>best_perf := v_perf (vget s3 (nextp s3)), best := trial_point trial\<rparr>
         else s3)"

definition strategy_analyze :: "env \<Rightarrow> data \<Rightarrow> htrial \<Rightarrow> (int \<times> data) option" where
  "strategy_analyze E s trial =
     (if hp_id (trial_point trial) \<noteq> v_id (vget s (nextp s)) then Some (-1, s)
      else
        case nm_algorithm E (analyze_best s trial) of
          None \<Rightarrow> None
        | Some (rc, s1) \<Rightarrow>
            if rc \<noteq> 0 then Some (-1, s1)
            else if state s1 \<noteq> SIMPLEX_STATE_CONVERGED
            then Some (0, s1\<lparr>next_id := next_id s1 + 1\<rparr>)
            else Some (0, s1))"


subsection \<open>Allocation and configuration\<close>

text \<open>\<^verbatim>\<open>strategy_alloc\<close>: \<^verbatim>\<open>calloc\<close> clears the structure (every double is \<open>0.0\<close>, every pointer
  null, every enumeration its first value); then \<^verbatim>\<open>next_id = 1\<close> and \<^verbatim>\<open>phase = -1\<close>.\<close>

definition strategy_alloc :: data where
  "strategy_alloc =
     \<lparr>space_len = 0, best = \<lparr>hp_id = 0, hp_term = []\<rparr>, best_perf = [],
      init_point = vnull, init_radius = Fin 0, reject_type = REJECT_METHOD_UNKNOWN,
      reflect_val = Fin 0, expand_val = Fin 0, contract_val = Fin 0, shrink_val = Fin 0,
      fval_tol = Fin 0, size_tol = Fin 0, dist_tol = Fin 0, move_len = Fin 0,
      space_size = Fin 0, tol_cnt = 0, leeway = [], mult = Fin 0,
      anchor = False, loose = False, samesimplex = False,
      state = SIMPLEX_STATE_UNKNONW, centroid = vnull, reflect = vnull, expand = vnull,
      contract = vnull, init_simplex = [], simplex = [], nextp = NextNull,
      index_best = 0, index_worst = 0, index_curr = 0, next_id = 1, phase = -1,
      perf_n = 0, thresh = [], spans = [], flat_cnt = 0, cnt = 0,
      cfg_converged = None, cfg_angel_phase = None\<rparr>"

text \<open>
  \<^verbatim>\<open>allocate_structures\<close>. What a fresh buffer holds is decided by the allocators, which are
  parameters. \<open>alloc_perfs\<close> is the loop that gives every vertex of a simplex its
  performance vector.
\<close>

fun alloc_perfs :: "env \<Rightarrow> int \<Rightarrow> simplex_t \<Rightarrow> simplex_t option" where
  "alloc_perfs E n [] = Some []"
| "alloc_perfs E n (v # vs) =
     (case hperf_init E (v_perf v) n of
        None \<Rightarrow> None
      | Some p \<Rightarrow> (case alloc_perfs E n vs of
                     None \<Rightarrow> None
                   | Some vs' \<Rightarrow> Some (v\<lparr>v_perf := p\<rparr> # vs')))"

definition alloc_vertex :: "env \<Rightarrow> data \<Rightarrow> vertex \<Rightarrow> vertex option" where
  "alloc_vertex E s v =
     (case lv_vertex_init E v (space_len s) of
        None \<Rightarrow> None
      | Some v1 \<Rightarrow> (case hperf_init E (v_perf v1) (perf_n s) of
                     None \<Rightarrow> None
                   | Some p \<Rightarrow> Some (v1\<lparr>v_perf := p\<rparr>)))"

definition need :: "string \<Rightarrow> 'a option \<Rightarrow> string + 'a" where
  "need msg x = (case x of None \<Rightarrow> Inl msg | Some y \<Rightarrow> Inr y)"

definition allocate_structures :: "env \<Rightarrow> data \<Rightarrow> string + data" where
  "allocate_structures E s =
     andthen (need ''Could not allocate initial simplex''
                (lv_simplex_init E (init_simplex s) (space_len s))) (\<lambda>sx.
     andthen (need ''Could not allocate initial simplex performance''
                (alloc_perfs E (perf_n s) sx)) (\<lambda>isx.
     andthen (need ''Could not allocate base simplex''
                (lv_simplex_init E (simplex s) (space_len s))) (\<lambda>sx.
     andthen (need ''Could not allocate initial simplex performance''
                (alloc_perfs E (perf_n s) sx)) (\<lambda>bsx.
     andthen (need ''Could not allocate best point''
                (hpoint_init E (best s) (space_len s))) (\<lambda>b.
     andthen (need ''Could not allocate best point''
                (hperf_init E (best_perf s) (perf_n s))) (\<lambda>bp.
     andthen (need ''Could not allocate reflection vertex'' (alloc_vertex E s (reflect s))) (\<lambda>r.
     andthen (need ''Could not allocate expansion vertex'' (alloc_vertex E s (expand s))) (\<lambda>e.
     andthen (need ''Could not allocate contraction vertex''
                (alloc_vertex E s (contract s))) (\<lambda>c.
     andthen (need ''Could not allocate leeway vector''
                (realloc_double E (leeway s) (perf_n s - 1))) (\<lambda>lw.
     andthen (need ''Could not allocate span container''
                (realloc_span E (spans s) (perf_n s))) (\<lambda>sp.
     andthen (need ''Could not allocate threshold container''
                (realloc_double E (thresh s) (perf_n s - 1))) (\<lambda>th.
     Inr (s\<lparr>init_simplex := isx, simplex := bsx, best := b, best_perf := bp, reflect := r,
            expand := e, contract := c, leeway := lw, spans := sp, thresh := th\<rparr>)))))))))))))"

text \<open>\<^verbatim>\<open>config_strategy\<close>, in the order of the source. \<open>Inl\<close> is \<^verbatim>\<open>return -1\<close> with the text
  given to \<^verbatim>\<open>session_error\<close> (empty where the source reports none).\<close>

definition guard :: "bool \<Rightarrow> string \<Rightarrow> data \<Rightarrow> string + data" where
  "guard bad msg s = (if bad then Inl msg else Inr s)"

definition config_coefficients :: "env \<Rightarrow> data \<Rightarrow> string + data" where
  "config_coefficients E s =
     (let s = s\<lparr>loose := hcfg_bool E ''ANGEL_LOOSE'', anchor := hcfg_bool E ''ANGEL_ANCHOR'',
                samesimplex := hcfg_bool E ''ANGEL_SAMESIMPLEX''\<rparr>
      in
     andthen (guard (isnan (hcfg_real E ''ANGEL_MULT''))
                ''Invalid value for ANGEL_MULT configuration key.''
                (s\<lparr>mult := hcfg_real E ''ANGEL_MULT''\<rparr>)) (\<lambda>s.
     andthen (guard (dle (hcfg_real E ''INIT_RADIUS'') (Fin 0)
                     \<or> dgt (hcfg_real E ''INIT_RADIUS'') (Fin 1))
                ''Configuration key INIT_RADIUS must be between 0.0 and 1.0 (exclusive).''
                (s\<lparr>init_radius := hcfg_real E ''INIT_RADIUS''\<rparr>)) (\<lambda>s.
     andthen (case hcfg_get E ''REJECT_METHOD'' of
                None \<Rightarrow> Inr s
              | Some cfgstr \<Rightarrow>
                  if cfgstr = ''penalty'' then Inr (s\<lparr>reject_type := REJECT_METHOD_PENALTY\<rparr>)
                  else if cfgstr = ''random'' then Inr (s\<lparr>reject_type := REJECT_METHOD_RANDOM\<rparr>)
                  else Inl ''Invalid value for REJECT_METHOD configuration key.'') (\<lambda>s.
     andthen (guard (isnan (hcfg_real E ''REFLECT'') \<or> dle (hcfg_real E ''REFLECT'') (Fin 0))
                ''Configuration key REFLECT must be positive.''
                (s\<lparr>reflect_val := hcfg_real E ''REFLECT''\<rparr>)) (\<lambda>s.
     andthen (guard (isnan (hcfg_real E ''EXPAND'')
                     \<or> dle (hcfg_real E ''EXPAND'') (reflect_val s))
                ''Configuration key EXPAND must be greater than the reflect coefficient.''
                (s\<lparr>expand_val := hcfg_real E ''EXPAND''\<rparr>)) (\<lambda>s.
     andthen (guard (isnan (hcfg_real E ''CONTRACT'') \<or> dle (hcfg_real E ''CONTRACT'') (Fin 0)
                     \<or> dge (hcfg_real E ''CONTRACT'') (Fin 1))
                ''Configuration key CONTRACT must be between 0.0 and 1.0 (exclusive).''
                (s\<lparr>contract_val := hcfg_real E ''CONTRACT''\<rparr>)) (\<lambda>s.
     andthen (guard (isnan (hcfg_real E ''SHRINK'') \<or> dle (hcfg_real E ''SHRINK'') (Fin 0)
                     \<or> dge (hcfg_real E ''SHRINK'') (Fin 1))
                ''Configuration key SHRINK must be between 0.0 and 1.0 (exclusive).''
                (s\<lparr>shrink_val := hcfg_real E ''SHRINK''\<rparr>)) (\<lambda>s.
     guard (hcfg_int E ''PERF_COUNT'' < 1)
       ''Invalid value for PERF_COUNT configuration key.''
       (s\<lparr>perf_n := hcfg_int E ''PERF_COUNT''\<rparr>)))))))))"

text \<open>The tolerances. When \<^verbatim>\<open>DIST_TOL\<close> is not defined (\<^verbatim>\<open>hcfg_real\<close> gives NaN) the branch
  sets \<^verbatim>\<open>fval_tol\<close> and \<^verbatim>\<open>size_tol\<close> and no other field.\<close>

definition config_tolerances :: "env \<Rightarrow> data \<Rightarrow> string + data" where
  "config_tolerances E s =
     (let cfgval = hcfg_real E ''DIST_TOL''
      in if \<not> isnan cfgval
         then
           andthen (guard (dle cfgval (Fin 0) \<or> dge cfgval (Fin 1))
                      ''Configuration key DIST_TOL must be between 0.0 and 1.0 (exclusive).''
                      s) (\<lambda>s.
           guard (hcfg_int E ''TOL_CNT'' < 1)
             ''Configuration key TOL_CNT must be greater than zero''
             (s\<lparr>dist_tol := dmul cfgval (space_size s), tol_cnt := hcfg_int E ''TOL_CNT''\<rparr>))
         else
           andthen (guard (isnan (hcfg_real E ''FVAL_TOL''))
                      ''Invalid value for FVAL_TOL configuration key.''
                      (s\<lparr>fval_tol := hcfg_real E ''FVAL_TOL''\<rparr>)) (\<lambda>s.
           guard (isnan (hcfg_real E ''SIZE_TOL'') \<or> dle (hcfg_real E ''SIZE_TOL'') (Fin 0)
                  \<or> dge (hcfg_real E ''SIZE_TOL'') (Fin 1))
             ''Configuration key SIZE_TOL must be between 0.0 and 1.0 (exclusive).''
             (s\<lparr>size_tol := dmul (hcfg_real E ''SIZE_TOL'') (space_size s)\<rparr>)))"

definition config_leeway :: "env \<Rightarrow> data \<Rightarrow> string + data" where
  "config_leeway E s =
     (case hcfg_get E ''ANGEL_LEEWAY'' of
        None \<Rightarrow> Inl ''ANGEL_LEEWAY must be defined.''
      | Some _ \<Rightarrow>
          if hcfg_arr_len E ''ANGEL_LEEWAY'' \<noteq> perf_n s - 1
          then Inl ''Incorrect number of leeway values provided.''
          else
            let n = nat (perf_n s - 1);
                s1 = s\<lparr>leeway := fold (\<lambda>i l. l[i := hcfg_arr_real E ''ANGEL_LEEWAY'' i])
                                    [0 ..< n] (leeway s)\<rparr>
            in guard (\<exists>i \<in> set [0 ..< n]. isnan (hcfg_arr_real E ''ANGEL_LEEWAY'' i))
                 ''Invalid value for ANGEL_LEEWAY configuration key.'' s1)"

definition config_strategy :: "env \<Rightarrow> data \<Rightarrow> string + data" where
  "config_strategy E s =
     andthen (config_coefficients E s) (\<lambda>s.
     andthen (allocate_structures E s) (\<lambda>s.
     andthen (need [] (lv_vertex_minimum E (expand s))) (\<lambda>mn.
     andthen (need [] (lv_vertex_maximum E (reflect s))) (\<lambda>mx.
     andthen (config_tolerances E
                (s\<lparr>expand := mn, reflect := mx, space_size := lv_vertex_norm E mn mx\<rparr>)) (\<lambda>s.
     andthen (config_leeway E s) (\<lambda>s.
     Inr (s\<lparr>spans := fold (\<lambda>i sp. sp[i := \<lparr>span_min = HUGE_VAL, span_max = dneg HUGE_VAL\<rparr>])
                        [0 ..< nat (perf_n s)] (spans s)\<rparr>)))))))"

definition strategy_init :: "env \<Rightarrow> data \<Rightarrow> int \<Rightarrow> string + data" where
  "strategy_init E s len =
     andthen (config_strategy E (s\<lparr>space_len := len\<rparr>)) (\<lambda>s.
     case make_initial_simplex E s of (rc1, s1) \<Rightarrow>
       if rc1 \<noteq> 0 then Inl ''Could not initialize initial simplex.''
       else
         (case increment_phase E (s1\<lparr>cfg_converged := Some ''0'', next_id := 1\<rparr>) of
            (rc2, s2) \<Rightarrow>
              if rc2 \<noteq> 0 then Inl []
              else (case nm_next_vertex E s2 of (rc3, s3) \<Rightarrow>
                      if rc3 \<noteq> 0 then Inl ''Could not initiate test vertex.'' else Inr s3)))"

section \<open>Statements: well-formedness, runs and the library as the spec describes it\<close>

subsection \<open>Finite doubles\<close>


fun fin :: "double \<Rightarrow> real" where
  "fin (Fin a) = a"
| "fin _ = 0"

subsection \<open>Runs of PRO\<close>




subsection \<open>Runs of ANGEL\<close>

text \<open>\<^verbatim>\<open>data->next\<close> points to an existing vertex.\<close>

definition next_valid :: "data \<Rightarrow> bool" where
  "next_valid s =
     (case nextp s of
        NextNull \<Rightarrow> False
      | NextSimplex i \<Rightarrow> i < length (simplex s)
      | _ \<Rightarrow> True)"

text \<open>The states of an initialised search: \<^verbatim>\<open>strategy_init\<close> leaves \<^verbatim>\<open>INIT\<close>, and the enumeration
  values \<^verbatim>\<open>UNKNONW\<close> and \<^verbatim>\<open>MAX\<close> are never assigned.\<close>

definition proper :: "data \<Rightarrow> bool" where
  "proper s = (state s \<noteq> SIMPLEX_STATE_UNKNONW \<and> state s \<noteq> SIMPLEX_STATE_MAX)"

text \<open>
  A call of the interface of ANGEL. A run makes the calls in order and collects the ids of
  the points that \<^verbatim>\<open>strategy_generate\<close> emitted (return value 0, flow status ACCEPT). A call
  made while \<^verbatim>\<open>data->next\<close> dangles is undefined behaviour in C: the run stops there
  (\<open>None\<close>), as it does when a call does not return.
\<close>

datatype angel_call = Generate hflow_status hpoint | Analyze htrial

fun angel_run :: "env \<Rightarrow> data \<Rightarrow> angel_call list \<Rightarrow> (int list \<times> data) option" where
  "angel_run E s [] = Some ([], s)"
| "angel_run E s (Generate flow point # cs) =
     (if \<not> next_valid s then None
      else case strategy_generate E s flow point of (rc, flow', point', s') \<Rightarrow>
        (case angel_run E s' cs of
           None \<Rightarrow> None
         | Some (ids, s'') \<Rightarrow>
             Some ((if rc = 0 \<and> flow' = HFLOW_ACCEPT then [hp_id point'] else []) @ ids, s'')))"
| "angel_run E s (Analyze trial # cs) =
     (if \<not> next_valid s then None
      else case strategy_analyze E s trial of
        None \<Rightarrow> None
      | Some (rc, s') \<Rightarrow> angel_run E s' cs)"

text \<open>
  How the phase and the tracked best of two states are related when only the state machine
  ran in between: nothing changed, or the phase advanced and the best was reset (every
  objective \<^verbatim>\<open>HUGE_VAL\<close>, id 0).
\<close>

definition same_or_reset :: "data \<Rightarrow> data \<Rightarrow> bool" where
  "same_or_reset s s' =
     ((phase s' = phase s \<and> best_perf s' = best_perf s \<and> best s' = best s)
      \<or> (phase s < phase s' \<and> list_all (\<lambda>x. x = HUGE_VAL) (best_perf s')
          \<and> hp_id (best s') = 0))"


subsection \<open>The vertex library as the spec describes it\<close>

text \<open>
  Modelled from the spec: \<^verbatim>\<open>vertex_transform\<close> (libvertex, not in the sources).
  "\<^verbatim>\<open>vertex_transform(origin, v, c, out)\<close> \<open>\<rightarrow>\<close> \<^verbatim>\<open>out = origin + c \<cdot> (v - origin)\<close>", on every
  coordinate. The spec names no other effect: the id and the performance of \<open>out\<close> stay.
\<close>

definition vertex_transform_spec :: "vertex \<Rightarrow> vertex \<Rightarrow> double \<Rightarrow> vertex \<Rightarrow> vertex" where
  "vertex_transform_spec origin v c out =
     out\<lparr>v_term := map2 (\<lambda>a x. dadd a (dmul c (dsub x a))) (v_term origin) (v_term v)\<rparr>"

text \<open>
  Modelled from the spec: \<^verbatim>\<open>simplex_transform\<close> (libvertex, not in the sources).
  "\<^verbatim>\<open>simplex_transform(s, pivot, c, out)\<close>: apply
  \<^verbatim>\<open>vertex_transform(pivot, s[i], c, out[i])\<close> element-wise."
\<close>

definition simplex_transform_spec ::
  "simplex_t \<Rightarrow> vertex \<Rightarrow> double \<Rightarrow> simplex_t \<Rightarrow> simplex_t" where
  "simplex_transform_spec sx pivot c out = map2 (\<lambda>v w. vertex_transform_spec pivot v c w) sx out"

fun dsqrt :: "double \<Rightarrow> double" where
  "dsqrt (Fin a) = (if a \<ge> 0 then Fin (sqrt a) else NaN)"
| "dsqrt PInf = PInf"
| "dsqrt _ = NaN"

text \<open>
  Modelled from the spec: \<^verbatim>\<open>vertex_norm\<close> with the L2 norm (libvertex, not in the sources), the
  "Euclidean distance in normalised dimension-index space"; on a continuous dimension the
  coordinate is the raw value.
\<close>

definition vertex_norm_spec :: "vertex \<Rightarrow> vertex \<Rightarrow> double" where
  "vertex_norm_spec a b =
     dsqrt (fold dadd (map2 (\<lambda>x y. dmul (dsub x y) (dsub x y)) (v_term a) (v_term b)) (Fin 0))"

text \<open>
  Modelled from the spec: \<^verbatim>\<open>vertex_inbounds\<close> (libvertex, not in the sources), "all dimensions
  within their legal range", for a space of continuous dimensions given by their bounds.
\<close>

definition vertex_inbounds_spec :: "(double \<times> double) list \<Rightarrow> vertex \<Rightarrow> bool" where
  "vertex_inbounds_spec bounds v =
     list_all2 (\<lambda>(lo, hi) x. dle lo x \<and> dle x hi) bounds (v_term v)"

text \<open>
  Modelled from the spec: \<^verbatim>\<open>simplex_collapsed\<close> (libvertex, not in the sources), "true iff all
  vertices project to the same aligned point"; on continuous dimensions every value is
  aligned.
\<close>

definition simplex_collapsed_spec :: "simplex_t \<Rightarrow> bool" where
  "simplex_collapsed_spec sx =
     (case sx of [] \<Rightarrow> True | v # vs \<Rightarrow> list_all (\<lambda>w. v_term w = v_term v) vs)"

text \<open>The mean of a list of vectors, coordinate by coordinate.\<close>

definition mean_vec :: "double list list \<Rightarrow> double list" where
  "mean_vec xss =
     (case xss of
        [] \<Rightarrow> []
      | xs # _ \<Rightarrow> map (\<lambda>j. ddiv (fold dadd (map (\<lambda>ys. ys ! j) xss) (Fin 0))
                                 (double_of_nat (length xss)))
                    [0 ..< length xs])"

text \<open>
  Modelled from the spec: \<^verbatim>\<open>simplex_centroid\<close> (libvertex, not in the sources), the "arithmetic
  mean of vertices whose id \<open>\<noteq>\<close> 0"; \<^verbatim>\<open>check_convergence\<close> reads an objective of the centroid,
  so the mean is taken of the performance as of the coordinates.
\<close>

definition simplex_centroid_spec :: "simplex_t \<Rightarrow> vertex \<Rightarrow> vertex" where
  "simplex_centroid_spec sx out =
     (let vs = filter (\<lambda>v. v_id v \<noteq> 0) sx
      in out\<lparr>v_term := mean_vec (map v_term vs), v_perf := mean_vec (map v_perf vs)\<rparr>)"

subsection \<open>A search on the interval \<open>[-10, 10]\<close>\<close>

text \<open>
  The instance the examples below run on: one continuous dimension with bounds \<open>-10\<close> and
  \<open>10\<close>, one objective. The library functions are those modelled from the spec; the corner
  and centre vertices are those of the interval, the initial simplex has the two
  vertices at the given fraction of the diameter on both sides of the centre, and fresh
  buffers are cleared. The configuration holds the defaults of \<^verbatim>\<open>plugin_keyinfo\<close>, one
  objective and an empty leeway list.
\<close>

definition line_vertex :: "vertex \<Rightarrow> real \<Rightarrow> vertex" where
  "line_vertex v x = v\<lparr>v_term := [Fin x]\<rparr>"

definition line_cfg_real :: "string \<Rightarrow> double" where
  "line_cfg_real key =
     (if key = ''INIT_RADIUS'' then Fin (1 / 2)
      else if key = ''REFLECT'' then Fin 1
      else if key = ''EXPAND'' then Fin 2
      else if key = ''CONTRACT'' then Fin (1 / 2)
      else if key = ''SHRINK'' then Fin (1 / 2)
      else if key = ''FVAL_TOL'' then Fin (1 / 10000)
      else if key = ''SIZE_TOL'' then Fin (5 / 1000)
      else if key = ''ANGEL_MULT'' then Fin 1
      else NaN)"

definition env_line :: env where
  "env_line =
     \<lparr>lv_vertex_transform = vertex_transform_spec,
      lv_simplex_transform = simplex_transform_spec,
      lv_vertex_norm = vertex_norm_spec,
      lv_vertex_inbounds = vertex_inbounds_spec [(Fin (-10), Fin 10)],
      lv_simplex_collapsed = simplex_collapsed_spec,
      lv_simplex_centroid = simplex_centroid_spec,
      lv_vertex_minimum = (\<lambda>v. Some (line_vertex v (-10))),
      lv_vertex_maximum = (\<lambda>v. Some (line_vertex v 10)),
      lv_vertex_parse = (\<lambda>str v. None),
      lv_vertex_center = (\<lambda>v. Some (line_vertex v 0)),
      lv_simplex_set = (\<lambda>sx c r.
         Some [line_vertex (sx ! 0) (fin (hd (v_term c)) - fin r * 20),
               line_vertex (sx ! 1) (fin (hd (v_term c)) + fin r * 20)]),
      lv_align = Some,
      hcfg_get = (\<lambda>key. if key = ''REJECT_METHOD'' then Some ''penalty''
                          else if key = ''ANGEL_LEEWAY'' then Some [] else None),
      hcfg_bool = (\<lambda>key. key = ''ANGEL_ANCHOR'' \<or> key = ''ANGEL_SAMESIMPLEX''),
      hcfg_int = (\<lambda>key. if key = ''PERF_COUNT'' then 1 else if key = ''TOL_CNT'' then 3 else 0),
      hcfg_real = line_cfg_real,
      hcfg_arr_len = (\<lambda>key. 0),
      hcfg_arr_real = (\<lambda>key i. NaN),
      lv_simplex_init = (\<lambda>sx n. Some (replicate (nat n + 1) vnull)),
      lv_vertex_init = (\<lambda>v n. Some (v\<lparr>v_term := replicate (nat n) (Fin 0)\<rparr>)),
      hperf_init = (\<lambda>p n. Some (replicate (nat n) (Fin 0))),
      hpoint_init = (\<lambda>p n. Some (p\<lparr>hp_term := replicate (nat n) (Fin 0)\<rparr>)),
      realloc_double = (\<lambda>xs n. Some (take (nat n) xs @ replicate (nat n - length xs) (Fin 0))),
      realloc_span = (\<lambda>xs n. Some (take (nat n) xs
                         @ replicate (nat n - length xs) \<lparr>span_min = Fin 0, span_max = Fin 0\<rparr>))\<rparr>"

text \<open>The instance after \<^verbatim>\<open>strategy_alloc\<close> and \<^verbatim>\<open>strategy_init\<close>, after the first
  \<^verbatim>\<open>strategy_generate\<close>, and the measurement of its first point.\<close>

definition line_init :: data where
  "line_init = (case strategy_init env_line strategy_alloc 1 of Inr s \<Rightarrow> s | Inl e \<Rightarrow> strategy_alloc)"

definition hpoint0 :: hpoint where
  "hpoint0 = \<lparr>hp_id = 0, hp_term = []\<rparr>"

definition line_gen1 :: data where
  "line_gen1 = snd (snd (snd (strategy_generate env_line line_init HFLOW_UNSET hpoint0)))"

definition line_trial1 :: htrial where
  "line_trial1 = \<lparr>trial_point = \<lparr>hp_id = 1, hp_term = [Fin (-10)]\<rparr>, trial_perf = [Fin 100]\<rparr>"

subsection \<open>Instances of PRO\<close>

text \<open>The variables of \<^verbatim>\<open>pro.c\<close> as the program starts: the initialisers of the source, zero
  for the variables without one. \<open>cfg\<close> is the session configuration and \<open>n\<close> the number of
  dimensions.\<close>

definition pvertex0 :: pvertex where
  "pvertex0 = \<lparr>pv_id = 0, pv_perf = Fin 0, pv_term = []\<rparr>"

definition pro_initial :: "(string \<rightharpoonup> string) \<Rightarrow> int \<Rightarrow> pro_globals" where
  "pro_initial cfg n =
     \<lparr>strategy_best = \<lparr>hp_id = 0, hp_term = []\<rparr>, strategy_best_perf = Fin 0,
      init_method = SIMPLEX_INIT_POINT, init_percent = Fin (35 / 100),
      reflect_coefficient = Fin 1, expand_coefficient = Fin 2,
      contract_coefficient = Fin (1 / 2), shrink_coefficient = Fin (1 / 2),
      converge_fv_tol = Fin (1 / 10000), converge_sz_tol = Fin 0,
      simplex_size = 0, pro_state = PRO_STATE_UNKNONW, base = [], test = [],
      best_base = 0, best_test = 0, best_stash = 0, pro_next_id = 0, send_idx = 0,
      reported = 0, pro_centroid = pvertex0, sess_cfg = cfg, range_len = n\<rparr>"

text \<open>\<^verbatim>\<open>strtod\<close> on the three strings used below: each is consumed whole. On any other string
  this table converts nothing.\<close>

definition libc0 :: libc where
  "libc0 = \<lparr>strtod = (\<lambda>str. if str = ''3.0'' then (Fin 3, [])
                           else if str = ''2.0'' then (Fin 2, [])
                           else if str = ''0.5'' then (Fin (1 / 2), [])
                           else (Fin 0, str)),
            atoi = (\<lambda>str. 0)\<rparr>"

text \<open>
  A search of PRO in two dimensions with three vertices, in \<^verbatim>\<open>EXPAND_ONE\<close>, the trial simplex
  measured. \<^verbatim>\<open>base\<close> is the reflected simplex that \<^verbatim>\<open>REFLECT\<close> accepted: its best vertex has
  index 1, which \<^verbatim>\<open>best_stash\<close> holds, and \<^verbatim>\<open>best_base\<close> is still the index of the pivot. The
  trial simplex is the expanded vertex, measured 7, and two copies of the pivot, measured
  3 and 2; the reports left \<^verbatim>\<open>best_test = 2\<close>.
\<close>

definition pro_expand_one :: pro_globals where
  "pro_expand_one =
     (pro_initial Map.empty 2)
       \<lparr>simplex_size := 3, pro_state := PRO_STATE_EXPAND_ONE,
        base := [\<lparr>pv_id = 4, pv_perf = Fin 3, pv_term = [Fin 0, Fin 0]\<rparr>,
                 \<lparr>pv_id = 5, pv_perf = Fin 1, pv_term = [Fin (-1), Fin 0]\<rparr>,
                 \<lparr>pv_id = 6, pv_perf = Fin 4, pv_term = [Fin 0, Fin (-1)]\<rparr>],
        test := [\<lparr>pv_id = 7, pv_perf = Fin 7, pv_term = [Fin (-2), Fin 0]\<rparr>,
                 \<lparr>pv_id = 8, pv_perf = Fin 3, pv_term = [Fin 0, Fin 0]\<rparr>,
                 \<lparr>pv_id = 9, pv_perf = Fin 2, pv_term = [Fin 0, Fin 0]\<rparr>],
        best_base := 0, best_test := 2, best_stash := 1, pro_next_id := 10,
        send_idx := 3, reported := 3\<rparr>"




text \<open>
  The same instance with the distance test configured: \<^verbatim>\<open>DIST_TOL = 0.5\<close> and \<^verbatim>\<open>TOL_CNT = 1\<close>.
  Its first four calls: the two vertices of the initial simplex are generated and
  measured (the objective is the square of the coordinate, 100 at both).
\<close>

definition env_line_dist :: env where
  "env_line_dist =
     env_line\<lparr>hcfg_real := (\<lambda>key. if key = ''DIST_TOL'' then Fin (1 / 2) else line_cfg_real key),
              hcfg_int := (\<lambda>key. if key = ''PERF_COUNT'' then 1
                                  else if key = ''TOL_CNT'' then 1 else 0)\<rparr>"

definition dist_init :: data where
  "dist_init =
     (case strategy_init env_line_dist strategy_alloc 1 of Inr s \<Rightarrow> s | Inl e \<Rightarrow> strategy_alloc)"

definition dist_calls :: "angel_call list" where
  "dist_calls =
     [Generate HFLOW_UNSET hpoint0,
      Analyze \<lparr>trial_point = \<lparr>hp_id = 1, hp_term = [Fin (-10)]\<rparr>, trial_perf = [Fin 100]\<rparr>,
      Generate HFLOW_UNSET hpoint0,
      Analyze \<lparr>trial_point = \<lparr>hp_id = 2, hp_term = [Fin 10]\<rparr>, trial_perf = [Fin 100]\<rparr>]"

definition dist_converged :: data where
  "dist_converged =
     (case angel_run env_line_dist dist_init dist_calls of
        Some (ids, s) \<Rightarrow> s
      | None \<Rightarrow> dist_init)"

subsection \<open>The tracked best along a run\<close>










subsection \<open>A small initial simplex, \<^verbatim>\<open>DIST_TOL\<close> not configured\<close>

text \<open>
  The search on the interval with the defaults, except \<^verbatim>\<open>INIT_RADIUS = 0.001\<close>: the initial
  simplex has the vertices \<open>-0.02\<close> and \<open>0.02\<close>. \<^verbatim>\<open>DIST_TOL\<close> has no default, so \<^verbatim>\<open>hcfg_real\<close> gives
  NaN for it. \<open>tight_measured\<close> is the search after the first vertex was measured (1.0) and
  the second generated; \<open>tight_trial2\<close> is the measurement of the second vertex (1.001).
  \<open>tight_reflect\<close> is the state in which \<^verbatim>\<open>nm_algorithm\<close> then calls \<^verbatim>\<open>check_convergence\<close>: the state
  transition has entered \<^verbatim>\<open>REFLECT\<close> and the centroid is updated.
\<close>

definition env_tight :: env where
  "env_tight =
     env_line\<lparr>hcfg_real := (\<lambda>key. if key = ''INIT_RADIUS'' then Fin (1 / 1000)
                                   else line_cfg_real key)\<rparr>"

definition tight_init :: data where
  "tight_init =
     (case strategy_init env_tight strategy_alloc 1 of Inr s \<Rightarrow> s | Inl e \<Rightarrow> strategy_alloc)"

definition tight_trial2 :: htrial where
  "tight_trial2 = \<lparr>trial_point = \<lparr>hp_id = 2, hp_term = [Fin (1 / 50)]\<rparr>,
                   trial_perf = [Fin (1001 / 1000)]\<rparr>"

definition tight_calls :: "angel_call list" where
  "tight_calls =
     [Generate HFLOW_UNSET hpoint0,
      Analyze \<lparr>trial_point = \<lparr>hp_id = 1, hp_term = [Fin (- (1 / 50))]\<rparr>, trial_perf = [Fin 1]\<rparr>,
      Generate HFLOW_UNSET hpoint0]"

definition tight_measured :: data where
  "tight_measured =
     (case angel_run env_tight tight_init tight_calls of Some (ids, s) \<Rightarrow> s | None \<Rightarrow> tight_init)"

definition tight_reflect :: data where
  "tight_reflect =
     update_centroid env_tight
       (snd (nm_state_transition env_tight (analyze_best tight_measured tight_trial2)))"

subsection \<open>The reflection as the spec words it\<close>


subsection \<open>The penalty as the spec words it\<close>






subsection \<open>The lowest analysed value\<close>






section \<open>Properties of PRO\<close>

subsection \<open>The id counter\<close>






subsection \<open>The search loop of a report\<close>



subsection \<open>Emitted ids of PRO\<close>



lemma update_best_id [simp]: "pro_next_id (update_best mesg s) = pro_next_id s"
  by (simp add: update_best_def)




subsection \<open>Validation of the coefficients\<close>

lemmas cfg_defs = strategy_cfg_def cfg_real_def cfg_init_method_def cfg_prefetch_def
  cfg_simplex_size_def andthen_def pro_initial_def libc0_def
  CFGKEY_PRO_SIMPLEX_SIZE_def CFGKEY_PREFETCH_COUNT_def CFGKEY_PRO_INIT_METHOD_def
  CFGKEY_PRO_INIT_PERCENT_def CFGKEY_PRO_REFLECT_def CFGKEY_PRO_EXPAND_def
  CFGKEY_PRO_CONTRACT_def CFGKEY_PRO_SHRINK_def CFGKEY_PRO_CONVERGE_FV_def
  CFGKEY_PRO_CONVERGE_SZ_def

text \<open>
  Claim C3 asks that each coefficient be checked against its own range. The blocks for
  \<^verbatim>\<open>PRO_EXPAND\<close>, \<^verbatim>\<open>PRO_CONTRACT\<close> and \<^verbatim>\<open>PRO_SHRINK\<close> test \<^verbatim>\<open>reflect_coefficient\<close> instead. With
  the default reflection coefficient 1.0 the valid expansion coefficient 3.0 is refused
  with the message of the range check; with the reflection coefficient 2.0 the invalid
  expansion coefficient 0.5 is accepted and stored.
\<close>

theorem strategy_cfg_expand_tests_reflect:
  "strategy_cfg libc0 (pro_initial [CFGKEY_PRO_EXPAND \<mapsto> ''3.0''] 2)
     = Inl ''Configuration key PRO_EXPAND must be greater than 1.0.''
   \<and> (\<exists>s. strategy_cfg libc0
              (pro_initial [CFGKEY_PRO_REFLECT \<mapsto> ''2.0'', CFGKEY_PRO_EXPAND \<mapsto> ''0.5''] 2) = Inr s
          \<and> expand_coefficient s = Fin (1 / 2))"
  by (simp add: cfg_defs)

subsection \<open>The revert of \<^verbatim>\<open>EXPAND_ONE\<close>\<close>

text \<open>
  Claim C4 asks that \<^verbatim>\<open>EXPAND_ONE\<close>, when the expanded vertex did not improve, restore the
  stashed best index as \<^verbatim>\<open>best_base\<close>. The source stores \<^verbatim>\<open>best_in\<close>, the best index of the
  trial simplex; \<^verbatim>\<open>best_stash\<close> is written in \<^verbatim>\<open>REFLECT\<close> and never read. In the example the
  expanded vertex (7) does not improve on the pivot (3); the state goes back to \<^verbatim>\<open>REFLECT\<close>
  with \<^verbatim>\<open>best_base = 2\<close>, while the stashed index is 1.
\<close>

theorem expand_one_revert_uses_best_in:
  "pro_state pro_expand_one = PRO_STATE_EXPAND_ONE
   \<and> \<not> dlt (pv_perf (test pro_expand_one ! 0))
            (pv_perf (base pro_expand_one ! best_base pro_expand_one))
   \<and> best_stash pro_expand_one = 1
   \<and> pro_next_state pro_expand_one (test pro_expand_one) (best_test pro_expand_one)
       = (0, pro_expand_one\<lparr>best_base := 2, pro_state := PRO_STATE_REFLECT\<rparr>)"
  by (simp add: pro_expand_one_def pro_initial_def pro_next_state_def)

section \<open>Properties of ANGEL\<close>

subsection \<open>What the state machine leaves alone\<close>


lemma vset_frame [simp]:
  "next_id (vset s r v) = next_id s" "spans (vset s r v) = spans s"
  "phase (vset s r v) = phase s" "best (vset s r v) = best s" "best_perf (vset s r v) = best_perf s"
  "state (vset s r v) = state s" "nextp (vset s r v) = nextp s"
  by (simp_all add: vset_def split: vref.splits)

lemma update_centroid_frame [simp]:
  "next_id (update_centroid E s) = next_id s" "spans (update_centroid E s) = spans s"
  "phase (update_centroid E s) = phase s" "best (update_centroid E s) = best s"
  "best_perf (update_centroid E s) = best_perf s" "state (update_centroid E s) = state s"
  "nextp (update_centroid E s) = nextp s"
  by (simp_all add: update_centroid_def Let_def split: prod.splits)

lemma make_initial_simplex_frame [simp]:
  "next_id (snd (make_initial_simplex E s)) = next_id s"
  "spans (snd (make_initial_simplex E s)) = spans s"
  "phase (snd (make_initial_simplex E s)) = phase s"
  "best (snd (make_initial_simplex E s)) = best s"
  "best_perf (snd (make_initial_simplex E s)) = best_perf s"
  "state (snd (make_initial_simplex E s)) = state s"
  "nextp (snd (make_initial_simplex E s)) = nextp s"
  by (simp_all add: make_initial_simplex_def Let_def split: option.splits)

lemma begin_phase_frame [simp]:
  "next_id (begin_phase s) = next_id s" "spans (begin_phase s) = spans s"
  "phase (begin_phase s) = phase s + 1" "best (begin_phase s) = best s"
  "best_perf (begin_phase s) = best_perf s" "state (begin_phase s) = state s"
  "nextp (begin_phase s) = nextp s"
  by (simp_all add: begin_phase_def Let_def)

lemma finish_phase_frame [simp]:
  "next_id (finish_phase E s) = next_id s" "spans (finish_phase E s) = spans s"
  "phase (finish_phase E s) = phase s" "hp_id (best (finish_phase E s)) = 0"
  "best_perf (finish_phase E s) = hperf_reset (best_perf s)"
  "state (finish_phase E s) = SIMPLEX_STATE_INIT"
  "nextp (finish_phase E s) = nextp s"
  by (simp_all add: finish_phase_def Let_def)

lemma increment_phase_cases:
  "(\<exists>s2. increment_phase E s = (0, finish_phase E s2) \<and>
         s2 = snd (if \<not> samesimplex (begin_phase s) then make_initial_simplex E (begin_phase s) else (0, begin_phase s)))
   \<or> (increment_phase E s = (-1, snd (make_initial_simplex E (begin_phase s)))
       \<and> fst (make_initial_simplex E (begin_phase s)) \<noteq> 0)"
  by (cases "make_initial_simplex E (begin_phase s)") (auto simp: increment_phase_def Let_def)

lemma increment_phase_frame [simp]:
  "next_id (snd (increment_phase E s)) = next_id s"
  "spans (snd (increment_phase E s)) = spans s"
  "nextp (snd (increment_phase E s)) = nextp s"
  "phase (snd (increment_phase E s)) = phase s + 1"
  using increment_phase_cases[of E s] by (auto split: if_splits)


lemma same_or_reset_refl [simp]: "same_or_reset s s"
  by (simp add: same_or_reset_def)





lemma converged_frame [simp]:
  "next_id (converged E s) = next_id s" "spans (converged E s) = spans s"
  "nextp (converged E s) = nextp s"
  by (simp_all add: converged_def)



lemma check_tolerances_frame [simp]:
  "next_id (check_tolerances E s) = next_id s" "spans (check_tolerances E s) = spans s"
  "nextp (check_tolerances E s) = nextp s"
  by (simp_all add: check_tolerances_def Let_def)


lemma check_convergence_frame [simp]:
  "next_id (check_convergence E s) = next_id s" "spans (check_convergence E s) = spans s"
  "nextp (check_convergence E s) = nextp s"
  by (simp_all add: check_convergence_def Let_def)



lemma replace_worst_frame [simp]:
  "next_id (replace_worst s v) = next_id s" "spans (replace_worst s v) = spans s"
  "phase (replace_worst s v) = phase s" "best (replace_worst s v) = best s"
  "best_perf (replace_worst s v) = best_perf s" "state (replace_worst s v) = state s"
  "nextp (replace_worst s v) = nextp s"
  by (simp_all add: replace_worst_def)

lemma nm_state_transition_frame [simp]:
  "next_id (snd (nm_state_transition E s)) = next_id s"
  "spans (snd (nm_state_transition E s)) = spans s"
  "phase (snd (nm_state_transition E s)) = phase s"
  "best (snd (nm_state_transition E s)) = best s"
  "best_perf (snd (nm_state_transition E s)) = best_perf s"
  "nextp (snd (nm_state_transition E s)) = nextp s"
  by (simp_all add: nm_state_transition_def Let_def split: simplex_state_t.splits)

lemma reset_next_frame [simp]:
  "next_id (reset_next s) = next_id s" "spans (reset_next s) = spans s"
  "phase (reset_next s) = phase s" "best (reset_next s) = best s"
  "best_perf (reset_next s) = best_perf s" "state (reset_next s) = state s"
  "nextp (reset_next s) = nextp s"
  by (simp_all add: reset_next_def)

lemma nm_next_vertex_frame [simp]:
  "next_id (snd (nm_next_vertex E s)) = next_id s"
  "spans (snd (nm_next_vertex E s)) = spans s"
  "phase (snd (nm_next_vertex E s)) = phase s"
  "best (snd (nm_next_vertex E s)) = best s"
  "best_perf (snd (nm_next_vertex E s)) = best_perf s"
  "state (snd (nm_next_vertex E s)) = state s"
  by (simp_all add: nm_next_vertex_def Let_def split: simplex_state_t.splits)

text \<open>One pass of the loop body, as a composition.\<close>

lemma nm_algorithm_body_eq:
  "nm_algorithm_body E s =
     (if fst (nm_state_transition E s) \<noteq> 0 then (-1, snd (nm_state_transition E s))
      else (if fst (nm_next_vertex E (if state (snd (nm_state_transition E s)) = SIMPLEX_STATE_REFLECT
                 then check_convergence E (update_centroid E (snd (nm_state_transition E s)))
                 else snd (nm_state_transition E s))) \<noteq> 0 then -1 else 0,
            snd (nm_next_vertex E (if state (snd (nm_state_transition E s)) = SIMPLEX_STATE_REFLECT
                 then check_convergence E (update_centroid E (snd (nm_state_transition E s)))
                 else snd (nm_state_transition E s)))))"
  by (simp add: nm_algorithm_body_def Let_def split: prod.splits)

lemma nm_algorithm_body_frame [simp]:
  "next_id (snd (nm_algorithm_body E s)) = next_id s"
  "spans (snd (nm_algorithm_body E s)) = spans s"
  by (simp_all add: nm_algorithm_body_eq)


text \<open>The generic induction over the loop: a relation that holds across the body, is
  reflexive and transitive, holds across the loop.\<close>

lemma nm_algorithm_rel:
  assumes run: "nm_algorithm E s = Some y"
    and Rrefl: "\<And>s. R s s"
    and Rtrans: "\<And>s s1 s2. R s s1 \<Longrightarrow> R s1 s2 \<Longrightarrow> R s s2"
    and body: "\<And>s. R s (snd (nm_algorithm_body E s))"
  shows "R s (snd y)"
proof -
  have "E = E \<longrightarrow> R s (snd y)"
  proof (rule nm_algorithm.raw_induct [where P = "\<lambda>E' s y. E' = E \<longrightarrow> R s (snd y)", OF _ run])
  fix na :: "env \<Rightarrow> data \<Rightarrow> (int \<times> data) option" and E' s y
  assume IH: "\<And>E' s y. na E' s = Some y \<Longrightarrow> E' = E \<longrightarrow> R s (snd y)"
  assume eq: "(if state s = SIMPLEX_STATE_CONVERGED then Some (0, s)
      else case nm_algorithm_body E' s of (rc, s') \<Rightarrow>
          if rc \<noteq> 0 then Some (-1, s')
          else if \<not> lv_vertex_inbounds E' (vget s' (nextp s')) then na E' s'
          else Some (0, s')) = Some y"
  show "E' = E \<longrightarrow> R s (snd y)"
  proof
    assume E: "E' = E"
    obtain rc s' where b: "nm_algorithm_body E s = (rc, s')"
      by (cases "nm_algorithm_body E s")
    have r: "R s s'" using body[of s] b by simp
    have "snd y = s \<or> snd y = s' \<or> na E s' = Some y"
    proof (cases "state s = SIMPLEX_STATE_CONVERGED")
      case True
      with eq show ?thesis by auto
    next
      case False
      with eq[unfolded E] have
        "(if rc \<noteq> 0 then Some (- 1, s')
          else if \<not> lv_vertex_inbounds E (vget s' (nextp s')) then na E s' else Some (0, s')) = Some y"
        by (simp add: b)
      then show ?thesis by (auto split: if_splits)
    qed
    then show "R s (snd y)" using r Rrefl Rtrans IH[of E s' y] by auto
  qed
  qed
  then show ?thesis by simp
qed


lemma nm_algorithm_spans: "nm_algorithm E s = Some y \<Longrightarrow> spans (snd y) = spans s"
  by (rule nm_algorithm_rel[where R = "\<lambda>s s'. spans s' = spans s"]) simp_all



subsection \<open>Proper states\<close>

lemma update_centroid_misc [simp]:
  "simplex (update_centroid E s) = simplex s"
  by (simp add: update_centroid_def Let_def split: prod.splits)



lemma proper_counters [simp]:
  "proper (s\<lparr>cnt := x\<rparr>) = proper s" "proper (s\<lparr>flat_cnt := x\<rparr>) = proper s"
  by (simp_all add: proper_def)








subsection \<open>The interface, case by case\<close>

lemma vget_vset [simp]: "next_valid s \<Longrightarrow> r = nextp s \<Longrightarrow> vget (vset s r v) r = v"
  by (auto simp: next_valid_def vget_def vset_def split: vref.splits)

lemma list_update_perf_id:
  "v_id (xs[i := (xs ! i)\<lparr>v_perf := p\<rparr>] ! j) = v_id (xs ! j)"
  by (cases "i < length xs") (simp_all add: nth_list_update list_update_beyond)

lemma vset_perf_id:
  "v_id (vget (vset s r ((vget s r)\<lparr>v_perf := p\<rparr>)) r') = v_id (vget s r')"
  by (cases r; cases r') (simp_all add: vget_def vset_def list_update_perf_id)

lemma vset_next_valid [simp]: "next_valid (vset s r v) = next_valid s"
  by (cases r) (simp_all add: next_valid_def vset_def cong: vref.case_cong)

lemma next_valid_spans [simp]: "next_valid (s\<lparr>spans := x\<rparr>) = next_valid s"
  by (simp add: next_valid_def cong: vref.case_cong)

lemma vget_spans [simp]: "vget (s\<lparr>spans := x\<rparr>) r = vget s r"
  by (simp add: vget_def cong: vref.case_cong)

lemma vget_best [simp]: "vget (s\<lparr>best_perf := x, best := y\<rparr>) r = vget s r"
  by (simp add: vget_def cong: vref.case_cong)

lemma next_valid_best [simp]: "next_valid (s\<lparr>best_perf := x, best := y\<rparr>) = next_valid s"
  by (simp add: next_valid_def cong: vref.case_cong)

lemma vset_spans_comm: "vset (s\<lparr>spans := x\<rparr>) r v = (vset s r v)\<lparr>spans := x\<rparr>"
  by (cases r) (simp_all add: vset_def)

text \<open>\<open>analyze_best\<close> in steps.\<close>

lemma analyze_best_eq:
  "analyze_best s trial =
     (let s1 = vset s (nextp s) ((vget s (nextp s))\<lparr>v_perf := trial_perf trial\<rparr>);
          s2 = s1\<lparr>spans := update_spans s1 (v_perf (vget s1 (nextp s)))\<rparr>;
          s3 = vset s2 (nextp s) ((vget s2 (nextp s))\<lparr>v_perf := penalised s2 (v_perf (vget s2 (nextp s)))\<rparr>)
      in if best_perf s = [] \<or> dgt (best_perf s ! nat (phase s)) (obj_at s3 (vget s3 (nextp s)))
         then s3\<lparr>best_perf := v_perf (vget s3 (nextp s)), best := trial_point trial\<rparr>
         else s3)"
  by (simp add: analyze_best_def Let_def)

lemma analyze_best_frame [simp]:
  "next_id (analyze_best s trial) = next_id s"
  "state (analyze_best s trial) = state s"
  "nextp (analyze_best s trial) = nextp s"
  "phase (analyze_best s trial) = phase s"
  "next_valid (analyze_best s trial) = next_valid s"
  by (simp_all add: analyze_best_eq Let_def)

lemma analyze_best_id [simp]:
  "v_id (vget (analyze_best s trial) r) = v_id (vget s r)"
proof -
  define s1 where "s1 = vset s (nextp s) ((vget s (nextp s))\<lparr>v_perf := trial_perf trial\<rparr>)"
  define s2 where "s2 = s1\<lparr>spans := update_spans s1 (v_perf (vget s1 (nextp s)))\<rparr>"
  define s3 where "s3 = vset s2 (nextp s) ((vget s2 (nextp s))\<lparr>v_perf := penalised s2 (v_perf (vget s2 (nextp s)))\<rparr>)"
  have 1: "v_id (vget s1 r) = v_id (vget s r)" by (simp add: s1_def vset_perf_id)
  have 2: "v_id (vget s2 r) = v_id (vget s1 r)" by (simp add: s2_def)
  have 3: "v_id (vget s3 r) = v_id (vget s2 r)" by (simp add: s3_def vset_perf_id)
  have "analyze_best s trial = s3 \<or> analyze_best s trial = s3\<lparr>best_perf := v_perf (vget s3 (nextp s)), best := trial_point trial\<rparr>"
    unfolding analyze_best_eq Let_def s1_def[symmetric] s2_def[symmetric] s3_def[symmetric]
    by simp
  then show ?thesis using 1 2 3 by auto
qed

lemma proper_analyze_best [simp]: "proper (analyze_best s trial) = proper s"
  by (simp add: proper_def)



lemma nm_algorithm_converged:
  "state s = SIMPLEX_STATE_CONVERGED \<Longrightarrow> nm_algorithm E s = Some (0, s)"
  by (subst nm_algorithm.simps) simp

lemma strategy_analyze_converged:
  assumes "state s = SIMPLEX_STATE_CONVERGED"
  shows "strategy_analyze E s trial =
           Some (if hp_id (trial_point trial) \<noteq> v_id (vget s (nextp s)) then (-1, s)
                 else (0, analyze_best s trial))"
  using assms by (simp add: strategy_analyze_def nm_algorithm_converged)

lemma strategy_generate_cases:
  assumes "next_valid s" and "strategy_generate E s flow point = (rc, flow', point', s')"
  shows "(v_id (vget s (nextp s)) = next_id s \<and> rc = 0 \<and> flow' = HFLOW_WAIT \<and> s' = s)
       \<or> (v_id (vget s (nextp s)) \<noteq> next_id s
           \<and> s' = vset s (nextp s) ((vget s (nextp s))\<lparr>v_id := next_id s\<rparr>)
           \<and> v_id (vget s' (nextp s')) = next_id s
           \<and> ((rc = -1 \<and> flow' = flow) \<or> (rc = 0 \<and> flow' = HFLOW_ACCEPT \<and> hp_id point' = next_id s)))"
proof (cases "v_id (vget s (nextp s)) = next_id s")
  case True
  with assms(2) show ?thesis by (simp add: strategy_generate_def)
next
  case False
  define s1 where "s1 = vset s (nextp s) ((vget s (nextp s))\<lparr>v_id := next_id s\<rparr>)"
  have n: "nextp s1 = nextp s" by (simp add: s1_def)
  have g: "vget s1 (nextp s) = (vget s (nextp s))\<lparr>v_id := next_id s\<rparr>"
    using assms(1) by (simp add: s1_def)
  have eq: "strategy_generate E s flow point =
      (case vertex_point E (vget s1 (nextp s)) of
             None \<Rightarrow> (-1, flow, point, s1)
           | Some p \<Rightarrow> (0, HFLOW_ACCEPT, p, s1))"
    unfolding strategy_generate_def Let_def s1_def[symmetric] n using False by simp
  show ?thesis
  proof (cases "vertex_point E (vget s1 (nextp s))")
    case None
    with eq assms(2) show ?thesis using False g n by (simp add: s1_def[symmetric])
  next
    case (Some p)
    then have "hp_id p = next_id s" using g
      by (auto simp: vertex_point_def split: option.splits)
    with Some eq assms(2) show ?thesis using False g n by (simp add: s1_def[symmetric])
  qed
qed


subsection \<open>Emitted ids of ANGEL\<close>

lemma vset_id_frame [simp]:
  "state (vset s r v) = state s" "next_id (vset s r v) = next_id s"
  by (simp_all)




subsection \<open>The search on the interval, evaluated\<close>


lemmas init_defs = strategy_init_def config_strategy_def config_coefficients_def config_tolerances_def
  config_leeway_def allocate_structures_def alloc_vertex_def need_def guard_def andthen_def
  make_initial_simplex_def increment_phase_def begin_phase_def finish_phase_def nm_next_vertex_def
  reset_next_def vset_def vget_def hperf_reset_def anchor_index_def
  env_line_def line_cfg_real_def line_vertex_def strategy_alloc_def vnull_def HUGE_VAL_def dge_def dgt_def dsub_def

lemma sqrt400: "sqrt 400 = 20"
  by (rule real_sqrt_unique) simp_all

lemma line_init_eq: "line_init =
  \<lparr>space_len = 1, best = \<lparr>hp_id = 0, hp_term = [Fin 0]\<rparr>, best_perf = [PInf],
   init_point = \<lparr>v_id = 0, v_perf = [], v_term = [Fin 0]\<rparr>,
   init_radius = Fin (1 / 2), reject_type = REJECT_METHOD_PENALTY,
   reflect_val = Fin 1, expand_val = Fin 2, contract_val = Fin (1 / 2), shrink_val = Fin (1 / 2),
   fval_tol = Fin (1 / 10000), size_tol = Fin (1 / 10), dist_tol = Fin 0, move_len = Fin 0,
   space_size = Fin 20, tol_cnt = 0, leeway = [], mult = Fin 1, anchor = True,
   loose = False, samesimplex = True, state = SIMPLEX_STATE_INIT,
   centroid = \<lparr>v_id = 0, v_perf = [Fin 0], v_term = []\<rparr>,
   reflect = \<lparr>v_id = 0, v_perf = [Fin 0], v_term = [Fin 10]\<rparr>,
   expand = \<lparr>v_id = 0, v_perf = [Fin 0], v_term = [Fin (- 10)]\<rparr>,
   contract = \<lparr>v_id = 0, v_perf = [Fin 0], v_term = [Fin 0]\<rparr>,
   init_simplex = [\<lparr>v_id = 0, v_perf = [Fin 0], v_term = [Fin (- 10)]\<rparr>,
                   \<lparr>v_id = 0, v_perf = [Fin 0], v_term = [Fin 10]\<rparr>],
   simplex = [\<lparr>v_id = 0, v_perf = [PInf], v_term = [Fin (- 10)]\<rparr>,
              \<lparr>v_id = 0, v_perf = [Fin 0], v_term = [Fin 10]\<rparr>],
   nextp = NextSimplex 0, index_best = 0, index_worst = 0,
   index_curr = 0, next_id = 1, phase = 0, perf_n = 1, thresh = [],
   spans = [\<lparr>span_min = PInf, span_max = NInf\<rparr>], flat_cnt = 0,
   cnt = 0, cfg_converged = Some ''0'', cfg_angel_phase = Some 0\<rparr>"
  by (simp add: line_init_def init_defs Let_def vertex_norm_spec_def sqrt400)

lemma line_gen1_eq: "line_gen1 = line_init\<lparr>simplex := [\<lparr>v_id = 1, v_perf = [PInf], v_term = [Fin (- 10)]\<rparr>,
              \<lparr>v_id = 0, v_perf = [Fin 0], v_term = [Fin 10]\<rparr>]\<rparr>"
  by (simp add: line_gen1_def line_init_eq strategy_generate_def vget_def vset_def vertex_point_def env_line_def Let_def)

lemmas nm_defs = nm_algorithm_body_def nm_state_transition_def nm_next_vertex_def reset_next_def
   vget_def vset_def hperf_reset_def HUGE_VAL_def update_centroid_def check_convergence_def check_tolerances_def
   converged_def flat_def fval_err_def size_max_def replace_worst_def obj_at_def dgt_def dge_def
   vertex_inbounds_spec_def vertex_norm_spec_def vertex_transform_spec_def simplex_transform_spec_def
   simplex_centroid_spec_def simplex_collapsed_spec_def mean_vec_def double_of_nat_def

lemmas analyze_defs = strategy_analyze_def analyze_best_def update_spans_def update_span_def
   penalised_def penalty_loop_def penalty_step_def


lemma an1: "strategy_analyze env_line line_gen1 line_trial1 =
    Some (0, line_init\<lparr>simplex := [\<lparr>v_id = 1, v_perf = [Fin 100], v_term = [Fin (- 10)]\<rparr>,
              \<lparr>v_id = 0, v_perf = [PInf], v_term = [Fin 10]\<rparr>],
        spans := [\<lparr>span_min = Fin 100, span_max = Fin 100\<rparr>], best_perf := [Fin 100],
        best := \<lparr>hp_id = 1, hp_term = [Fin (-10)]\<rparr>, index_curr := 1, nextp := NextSimplex 1, next_id := 2\<rparr>)"
  apply (simp add: analyze_defs line_gen1_eq line_init_eq line_trial1_def vget_def vset_def HUGE_VAL_def dgt_def Let_def obj_at_def)
  apply (subst nm_algorithm.simps)
  apply (simp add: nm_defs Let_def env_line_def)
  done


subsection \<open>The run with the distance test, evaluated\<close>

lemma dist_init_eq:
  "dist_init = line_init\<lparr>dist_tol := Fin 10, tol_cnt := 1, fval_tol := Fin 0, size_tol := Fin 0\<rparr>"
  by (simp add: dist_init_def line_init_eq init_defs Let_def vertex_norm_spec_def sqrt400
      env_line_dist_def)

lemmas run_defs = strategy_generate_def vertex_point_def next_valid_def analyze_defs nm_defs

lemma dist_run_eq:
  "angel_run env_line_dist dist_init dist_calls =
     Some ([1, 2],
       line_init\<lparr>best := \<lparr>hp_id = 1, hp_term = [Fin (- 10)]\<rparr>, best_perf := [Fin 100],
         fval_tol := Fin 0, size_tol := Fin 0, dist_tol := Fin 10, tol_cnt := 1,
         state := SIMPLEX_STATE_CONVERGED,
         centroid := \<lparr>v_id = 0, v_perf = [Fin 100], v_term = [Fin 10]\<rparr>,
         simplex := [\<lparr>v_id = 1, v_perf = [PInf], v_term = [Fin (- 10)]\<rparr>,
                     \<lparr>v_id = 2, v_perf = [Fin 100], v_term = [Fin 10]\<rparr>],
         next_id := 2, spans := [\<lparr>span_min = Fin 100, span_max = Fin 100\<rparr>],
         flat_cnt := 1, cfg_converged := Some ''1''\<rparr>)"
  by (simp add: dist_calls_def dist_init_eq line_init_eq hpoint0_def
      run_defs nm_algorithm.simps Let_def env_line_dist_def env_line_def)

lemma dist_converged_eq:
  "dist_converged =
       line_init\<lparr>best := \<lparr>hp_id = 1, hp_term = [Fin (- 10)]\<rparr>, best_perf := [Fin 100],
         fval_tol := Fin 0, size_tol := Fin 0, dist_tol := Fin 10, tol_cnt := 1,
         state := SIMPLEX_STATE_CONVERGED,
         centroid := \<lparr>v_id = 0, v_perf = [Fin 100], v_term = [Fin 10]\<rparr>,
         simplex := [\<lparr>v_id = 1, v_perf = [PInf], v_term = [Fin (- 10)]\<rparr>,
                     \<lparr>v_id = 2, v_perf = [Fin 100], v_term = [Fin 10]\<rparr>],
         next_id := 2, spans := [\<lparr>span_min = Fin 100, span_max = Fin 100\<rparr>],
         flat_cnt := 1, cfg_converged := Some ''1''\<rparr>"
  by (simp add: dist_converged_def dist_run_eq)

lemma dist_converged_facts:
  "state dist_converged = SIMPLEX_STATE_CONVERGED" "next_id dist_converged = 2"
  "nextp dist_converged = NextSimplex 0" "length (simplex dist_converged) = 2"
  "v_id (simplex dist_converged ! 0) = 1" "index_best dist_converged = 0"
  "proper dist_init" "next_id dist_init = 1"
  by (simp_all add: dist_converged_eq dist_init_eq line_init_eq proper_def)




subsection \<open>After convergence\<close>

lemma angel_run_waiting:
  "state s = SIMPLEX_STATE_CONVERGED \<Longrightarrow> next_valid s \<Longrightarrow> v_id (vget s (nextp s)) = next_id s \<Longrightarrow>
   \<exists>s'. angel_run E s cs = Some ([], s') \<and> next_id s' = next_id s
        \<and> state s' = SIMPLEX_STATE_CONVERGED"
proof (induction cs arbitrary: s)
  case Nil
  then show ?case by simp
next
  case (Cons c cs)
  show ?case
  proof (cases c)
    case (Generate flow point)
    have "strategy_generate E s flow point = (0, HFLOW_WAIT, point, s)"
      using Cons.prems(3) by (simp add: strategy_generate_def)
    then show ?thesis using Cons.IH[OF Cons.prems] Cons.prems(2) Generate by auto
  next
    case (Analyze trial)
    let ?s1 = "analyze_best s trial"
    have a: "strategy_analyze E s trial = Some (-1, s) \<or> strategy_analyze E s trial = Some (0, ?s1)"
      using strategy_analyze_converged[OF Cons.prems(1), of E trial] by auto
    have "state ?s1 = SIMPLEX_STATE_CONVERGED" "next_valid ?s1"
      "v_id (vget ?s1 (nextp ?s1)) = next_id ?s1"
      using Cons.prems by simp_all
    from Cons.IH[OF this] Cons.IH[OF Cons.prems] a show ?thesis
      using Cons.prems(2) Analyze by auto
  qed
qed

lemma angel_run_after_convergence:
  "state s = SIMPLEX_STATE_CONVERGED \<Longrightarrow> next_valid s \<Longrightarrow>
   \<exists>ids s'. angel_run E s cs = Some (ids, s') \<and> (ids = [] \<or> ids = [next_id s])
        \<and> next_id s' = next_id s \<and> state s' = SIMPLEX_STATE_CONVERGED"
proof (induction cs arbitrary: s)
  case Nil
  then show ?case by simp
next
  case (Cons c cs)
  show ?case
  proof (cases c)
    case (Generate flow point)
    obtain rc flow' point' s1 where g: "strategy_generate E s flow point = (rc, flow', point', s1)"
      by (cases "strategy_generate E s flow point")
    from strategy_generate_cases[OF Cons.prems(2) g] show ?thesis
    proof
      assume "v_id (vget s (nextp s)) = next_id s \<and> rc = 0 \<and> flow' = HFLOW_WAIT \<and> s1 = s"
      then have "v_id (vget s (nextp s)) = next_id s" by blast
      from angel_run_waiting[OF Cons.prems this, of E "c # cs"] show ?thesis by auto
    next
      assume a: "v_id (vget s (nextp s)) \<noteq> next_id s
           \<and> s1 = vset s (nextp s) ((vget s (nextp s))\<lparr>v_id := next_id s\<rparr>)
           \<and> v_id (vget s1 (nextp s1)) = next_id s
           \<and> ((rc = -1 \<and> flow' = flow) \<or> (rc = 0 \<and> flow' = HFLOW_ACCEPT \<and> hp_id point' = next_id s))"
      then have s1: "s1 = vset s (nextp s) ((vget s (nextp s))\<lparr>v_id := next_id s\<rparr>)" by blast
      have f: "state s1 = SIMPLEX_STATE_CONVERGED" "next_valid s1" "next_id s1 = next_id s"
        using Cons.prems by (simp_all add: s1)
      from a have "v_id (vget s1 (nextp s1)) = next_id s" by blast
      then have w: "v_id (vget s1 (nextp s1)) = next_id s1" using f(3) by simp
      from angel_run_waiting[OF f(1) f(2) w, of E cs] obtain s' where
        r: "angel_run E s1 cs = Some ([], s')" "next_id s' = next_id s1"
           "state s' = SIMPLEX_STATE_CONVERGED" by blast
      have e: "rc = 0 \<and> flow' = HFLOW_ACCEPT \<longrightarrow> hp_id point' = next_id s" using a by auto
      show ?thesis using Generate Cons.prems(2) g r f(3) e by auto
    qed
  next
    case (Analyze trial)
    let ?s1 = "analyze_best s trial"
    have a: "strategy_analyze E s trial = Some (-1, s) \<or> strategy_analyze E s trial = Some (0, ?s1)"
      using strategy_analyze_converged[OF Cons.prems(1), of E trial] by auto
    have "state ?s1 = SIMPLEX_STATE_CONVERGED" "next_valid ?s1"
      using Cons.prems by simp_all
    from Cons.IH[OF this] Cons.IH[OF Cons.prems] a show ?thesis
      using Cons.prems(2) Analyze by auto
  qed
qed

text \<open>
  Claim C9. Once ANGEL has reached \<^verbatim>\<open>CONVERGED\<close>, \<^verbatim>\<open>strategy_analyze\<close> no longer increments
  \<^verbatim>\<open>next_id\<close>: every sequence of \<^verbatim>\<open>strategy_generate\<close> and \<^verbatim>\<open>strategy_analyze\<close> calls returns,
  leaves \<^verbatim>\<open>next_id\<close> and the state as they are and emits at most one point, whose id is the
  current \<^verbatim>\<open>next_id\<close>, so every other \<^verbatim>\<open>strategy_generate\<close> of the sequence returns WAIT; the
  vertex that \<^verbatim>\<open>nm_next_vertex\<close> offers in \<^verbatim>\<open>CONVERGED\<close> is the best vertex of the simplex.
\<close>

theorem converged_emits_at_most_once:
  assumes "state s = SIMPLEX_STATE_CONVERGED" and "next_valid s"
  shows "\<exists>ids s'. angel_run E s cs = Some (ids, s') \<and> (ids = [] \<or> ids = [next_id s])
           \<and> next_id s' = next_id s \<and> state s' = SIMPLEX_STATE_CONVERGED
           \<and> fst (nm_next_vertex E s) = 0
           \<and> nextp (snd (nm_next_vertex E s)) = NextSimplex (index_best s)"
proof -
  have "fst (nm_next_vertex E s) = 0 \<and> nextp (snd (nm_next_vertex E s)) = NextSimplex (index_best s)"
    using assms(1) by (simp add: nm_next_vertex_def)
  then show ?thesis using angel_run_after_convergence[OF assms, of E cs] by auto
qed

text \<open>The search with the distance test has converged after its first four calls, with
  \<^verbatim>\<open>next_id = 2\<close>. Of three further \<^verbatim>\<open>strategy_generate\<close> calls around a \<^verbatim>\<open>strategy_analyze\<close>, the
  first emits the best vertex with id 2 and the others return WAIT.\<close>

theorem converged_emits_at_most_once_witness:
  "state dist_converged = SIMPLEX_STATE_CONVERGED \<and> next_valid dist_converged
   \<and> (\<exists>s'. angel_run env_line_dist dist_converged
              [Generate HFLOW_UNSET hpoint0, Generate HFLOW_UNSET hpoint0,
               Analyze \<lparr>trial_point = \<lparr>hp_id = 2, hp_term = [Fin (-10)]\<rparr>, trial_perf = [Fin 100]\<rparr>,
               Generate HFLOW_UNSET hpoint0] = Some ([2], s')
          \<and> next_id s' = 2 \<and> state s' = SIMPLEX_STATE_CONVERGED)
   \<and> nextp (snd (nm_next_vertex env_line_dist dist_converged)) = NextSimplex 0"
proof -
  have c: "state dist_converged = SIMPLEX_STATE_CONVERGED" by (rule dist_converged_facts)
  have v: "next_valid dist_converged" by (simp add: next_valid_def dist_converged_facts)
  let ?cs = "[Generate HFLOW_UNSET hpoint0, Generate HFLOW_UNSET hpoint0,
               Analyze \<lparr>trial_point = \<lparr>hp_id = 2, hp_term = [Fin (-10)]\<rparr>, trial_perf = [Fin 100]\<rparr>,
               Generate HFLOW_UNSET hpoint0]"
  obtain ids s' where r: "angel_run env_line_dist dist_converged ?cs = Some (ids, s')"
    "ids = [] \<or> ids = [next_id dist_converged]" "next_id s' = next_id dist_converged"
    "state s' = SIMPLEX_STATE_CONVERGED"
    "nextp (snd (nm_next_vertex env_line_dist dist_converged)) = NextSimplex (index_best dist_converged)"
    using converged_emits_at_most_once[OF c v, of env_line_dist ?cs] by blast
  have "ids \<noteq> []"
    using r(1) v by (auto simp: strategy_generate_def vget_def dist_converged_facts vertex_point_def
        env_line_dist_def env_line_def Let_def split: option.splits prod.splits)
  then show ?thesis using r c v by (simp add: dist_converged_facts)
qed

subsection \<open>The ids of the emitted points\<close>




subsection \<open>Reports of unknown ids\<close>



subsection \<open>The observed value ranges\<close>

lemma update_span_length [simp]: "length (update_span ob sp i) = length sp"
  by (simp add: update_span_def Let_def)

lemma update_span_nth:
  "k < length sp \<Longrightarrow>
   update_span ob sp i ! k =
     (if k = i
      then \<lparr>span_min = (if dgt (span_min (sp ! k)) (ob ! k) then ob ! k else span_min (sp ! k)),
            span_max = (if dlt (span_max (sp ! k)) (ob ! k) \<and> dlt (ob ! k) HUGE_VAL
                        then ob ! k else span_max (sp ! k))\<rparr>
      else sp ! k)"
  by (simp add: update_span_def Let_def nth_list_update)

lemma update_spans_fold_length [simp]:
  "length (fold (\<lambda>i sp. update_span ob sp i) [0 ..< n] sp) = length sp"
  by (induction n) simp_all

lemma update_spans_fold_nth:
  "k < length sp \<Longrightarrow>
   fold (\<lambda>i sp. update_span ob sp i) [0 ..< n] sp ! k =
     (if k < n
      then \<lparr>span_min = (if dgt (span_min (sp ! k)) (ob ! k) then ob ! k else span_min (sp ! k)),
            span_max = (if dlt (span_max (sp ! k)) (ob ! k) \<and> dlt (ob ! k) HUGE_VAL
                        then ob ! k else span_max (sp ! k))\<rparr>
      else sp ! k)"
proof (induction n)
  case 0
  then show ?case by simp
next
  case (Suc n)
  let ?F = "fold (\<lambda>i sp. update_span ob sp i) [0 ..< n] sp"
  have step: "fold (\<lambda>i sp. update_span ob sp i) [0 ..< Suc n] sp = update_span ob ?F n"
    by simp
  have len: "k < length ?F" using Suc.prems by simp
  show ?case
  proof (cases "k = n")
    case True
    have "?F ! k = sp ! k" using Suc.IH[OF Suc.prems] True by simp
    then show ?thesis unfolding step using True len by (simp add: update_span_nth)
  next
    case False
    then show ?thesis unfolding step using len Suc.IH[OF Suc.prems]
      by (simp add: update_span_nth)
  qed
qed

lemma analyze_best_spans:
  assumes "next_valid s"
  shows "spans (analyze_best s trial) = update_spans s (trial_perf trial)"
proof -
  have "update_spans (vset s (nextp s) v) ob = update_spans s ob" for v ob
    by (simp add: update_spans_def vset_def split: vref.splits)
  then show ?thesis using assms by (simp add: analyze_best_def Let_def)
qed

lemma strategy_analyze_spans:
  assumes "strategy_analyze E s trial = Some (rc, s')"
    and "hp_id (trial_point trial) = v_id (vget s (nextp s))"
  shows "spans s' = spans (analyze_best s trial)"
proof -
  from assms obtain y where y: "nm_algorithm E (analyze_best s trial) = Some y" and "s' = snd y \<or> s' = (snd y)\<lparr>next_id := next_id (snd y) + 1\<rparr>"
    by (auto simp: strategy_analyze_def split: option.splits if_splits)
  then show ?thesis using nm_algorithm_spans[OF y] by auto
qed

text \<open>
  Claim C10. In \<^verbatim>\<open>strategy_analyze\<close> the observed span of every objective \<open>k\<close> is updated
  asymmetrically: the minimum is lowered by any measured value below it, the maximum is
  raised only by a value above it that is strictly below \<^verbatim>\<open>HUGE_VAL\<close>; a measurement of
  \<^verbatim>\<open>HUGE_VAL\<close> leaves the span of its objective as it was.
\<close>

theorem span_update_asymmetric:
  assumes "strategy_analyze E s trial = Some (rc, s')"
    and "hp_id (trial_point trial) = v_id (vget s (nextp s))"
    and "next_valid s"
    and "k < nat (perf_n s)" and "k < length (spans s)"
  shows "span_min (spans s' ! k) =
           (if dgt (span_min (spans s ! k)) (trial_perf trial ! k)
            then trial_perf trial ! k else span_min (spans s ! k))
         \<and> span_max (spans s' ! k) =
           (if dlt (span_max (spans s ! k)) (trial_perf trial ! k)
               \<and> dlt (trial_perf trial ! k) HUGE_VAL
            then trial_perf trial ! k else span_max (spans s ! k))
         \<and> (trial_perf trial ! k = HUGE_VAL \<longrightarrow> spans s' ! k = spans s ! k)"
proof -
  have "spans s' = update_spans s (trial_perf trial)"
    using strategy_analyze_spans[OF assms(1,2)] analyze_best_spans[OF assms(3)] by simp
  then have e: "spans s' ! k =
     \<lparr>span_min = (if dgt (span_min (spans s ! k)) (trial_perf trial ! k)
                  then trial_perf trial ! k else span_min (spans s ! k)),
      span_max = (if dlt (span_max (spans s ! k)) (trial_perf trial ! k)
                     \<and> dlt (trial_perf trial ! k) HUGE_VAL
                  then trial_perf trial ! k else span_max (spans s ! k))\<rparr>"
    using assms(4,5) by (simp add: update_spans_def update_spans_fold_nth)
  have "\<not> dgt x HUGE_VAL" for x by (cases x) (simp_all add: dgt_def HUGE_VAL_def)
  moreover have "\<not> dlt HUGE_VAL HUGE_VAL" by (simp add: HUGE_VAL_def)
  ultimately show ?thesis using e by simp
qed

text \<open>The first measurement of the search on the interval: the span of the objective goes
  from \<open>[+\<infinity>, -\<infinity>]\<close> to \<open>[100, 100]\<close>.\<close>

theorem span_update_asymmetric_witness:
  "\<exists>rc s'. strategy_analyze env_line line_gen1 line_trial1 = Some (rc, s')
      \<and> span_min (spans line_gen1 ! 0) = PInf \<and> span_max (spans line_gen1 ! 0) = NInf
      \<and> span_min (spans s' ! 0) = Fin 100 \<and> span_max (spans s' ! 0) = Fin 100"
proof -
  have v: "next_valid line_gen1" "hp_id (trial_point line_trial1) = v_id (vget line_gen1 (nextp line_gen1))"
    "0 < nat (perf_n line_gen1)" "0 < length (spans line_gen1)"
    by (simp_all add: line_gen1_eq line_init_eq line_trial1_def next_valid_def vget_def)
  show ?thesis
    using span_update_asymmetric[OF an1 v(2) v(1) v(3) v(4)] an1
    by (simp add: line_gen1_eq line_init_eq line_trial1_def dgt_def HUGE_VAL_def)
qed



subsection \<open>The convergence test when \<^verbatim>\<open>DIST_TOL\<close> is not configured\<close>

text \<open>\<^verbatim>\<open>strategy_alloc\<close> clears \<^verbatim>\<open>dist_tol\<close>, and \<^verbatim>\<open>strategy_init\<close> writes it only when \<^verbatim>\<open>DIST_TOL\<close> is
  configured: without the key, \<^verbatim>\<open>dist_tol\<close> is \<open>0.0\<close>, not NaN.\<close>

lemma andthen_Inr: "andthen x f = Inr y \<Longrightarrow> \<exists>z. x = Inr z \<and> f z = Inr y"
  by (cases x) (simp_all add: andthen_def)

lemma andthenE:
  assumes "andthen x f = Inr y"
  obtains z where "x = Inr z" "f z = Inr y"
  using assms by (cases x) (simp_all add: andthen_def)

lemma guard_Inr: "guard b m s = Inr y \<Longrightarrow> y = s"
  by (simp add: guard_def split: if_splits)

lemma config_coefficients_dist_tol:
  "config_coefficients E s = Inr s' \<Longrightarrow> dist_tol s' = dist_tol s"
  unfolding config_coefficients_def Let_def
  apply (elim andthenE)
  apply (drule guard_Inr)+
  apply (simp split: option.splits if_splits)
  apply auto
  done

lemma allocate_structures_dist_tol:
  "allocate_structures E s = Inr s' \<Longrightarrow> dist_tol s' = dist_tol s"
  unfolding allocate_structures_def
  by (elim andthenE) clarsimp

lemma config_tolerances_dist_tol:
  "config_tolerances E s = Inr s' \<Longrightarrow> isnan (hcfg_real E ''DIST_TOL'') \<Longrightarrow> dist_tol s' = dist_tol s"
  unfolding config_tolerances_def Let_def
  by (auto dest!: andthen_Inr guard_Inr)

lemma config_leeway_dist_tol:
  "config_leeway E s = Inr s' \<Longrightarrow> dist_tol s' = dist_tol s"
  unfolding config_leeway_def Let_def
  by (auto dest!: guard_Inr split: option.splits if_splits)

lemma config_strategy_dist_tol:
  "config_strategy E s = Inr s' \<Longrightarrow> isnan (hcfg_real E ''DIST_TOL'') \<Longrightarrow> dist_tol s' = dist_tol s"
  unfolding config_strategy_def
  by (auto dest!: andthen_Inr config_coefficients_dist_tol allocate_structures_dist_tol
        config_tolerances_dist_tol config_leeway_dist_tol)

lemma vset_dist_tol: "dist_tol (vset s r v) = dist_tol s"
  by (simp add: vset_def split: vref.splits)

lemma make_initial_simplex_dist_tol:
  "dist_tol (snd (make_initial_simplex E s)) = dist_tol s"
  by (simp add: make_initial_simplex_def Let_def split: option.splits)

lemma begin_phase_dist_tol: "dist_tol (begin_phase s) = dist_tol s"
  by (simp add: begin_phase_def Let_def)

lemma finish_phase_dist_tol: "dist_tol (finish_phase E s) = dist_tol s"
  by (simp add: finish_phase_def Let_def)

lemma increment_phase_dist_tol:
  "dist_tol (snd (increment_phase E s)) = dist_tol s"
  using increment_phase_cases[of E s]
  by (auto simp: begin_phase_dist_tol finish_phase_dist_tol make_initial_simplex_dist_tol
      split: if_splits)

lemma nm_next_vertex_dist_tol:
  "dist_tol (snd (nm_next_vertex E s)) = dist_tol s"
  by (cases "state s") (simp_all add: nm_next_vertex_def reset_next_def Let_def vset_dist_tol)

lemma strategy_init_dist_tol:
  assumes "strategy_init E strategy_alloc n = Inr s" "isnan (hcfg_real E ''DIST_TOL'')"
  shows "dist_tol s = Fin 0"
proof -
  from assms(1) obtain s1 where c: "config_strategy E (strategy_alloc\<lparr>space_len := n\<rparr>) = Inr s1"
    and r: "(case make_initial_simplex E s1 of (rc1, s1') \<Rightarrow>
       if rc1 \<noteq> 0 then Inl ''Could not initialize initial simplex.''
       else
         (case increment_phase E (s1'\<lparr>cfg_converged := Some ''0'', next_id := 1\<rparr>) of
            (rc2, s2) \<Rightarrow>
              if rc2 \<noteq> 0 then Inl []
              else (case nm_next_vertex E s2 of (rc3, s3) \<Rightarrow>
                      if rc3 \<noteq> 0 then Inl ''Could not initiate test vertex.'' else Inr s3))) = Inr s"
    unfolding strategy_init_def by (auto dest!: andthen_Inr)
  have d1: "dist_tol s1 = Fin 0"
    using config_strategy_dist_tol[OF c assms(2)] by (simp add: strategy_alloc_def)
  obtain rc1 s1' where m: "make_initial_simplex E s1 = (rc1, s1')" by (cases "make_initial_simplex E s1")
  obtain rc2 s2 where i: "increment_phase E (s1'\<lparr>cfg_converged := Some ''0'', next_id := 1\<rparr>) = (rc2, s2)"
    by (cases "increment_phase E (s1'\<lparr>cfg_converged := Some ''0'', next_id := 1\<rparr>)")
  obtain rc3 s3 where x: "nm_next_vertex E s2 = (rc3, s3)" by (cases "nm_next_vertex E s2")
  have "s = s3" using r m i x by (simp split: if_splits)
  moreover have "dist_tol s3 = dist_tol s2" using nm_next_vertex_dist_tol[of E s2] x by simp
  moreover have "dist_tol s2 = dist_tol s1'" using increment_phase_dist_tol[of E "s1'\<lparr>cfg_converged := Some ''0'', next_id := 1\<rparr>"] i by simp
  moreover have "dist_tol s1' = dist_tol s1" using make_initial_simplex_dist_tol[of E s1] m by simp
  ultimately show ?thesis using d1 by simp
qed

text \<open>With \<^verbatim>\<open>dist_tol = 0.0\<close> the test \<^verbatim>\<open>!isnan(data->dist_tol)\<close> succeeds, and no length of a
  move is below the tolerance: \<^verbatim>\<open>check_convergence\<close> never reaches the test of \<^verbatim>\<open>fval_err\<close> and
  \<^verbatim>\<open>size_max\<close>.\<close>

lemma check_tolerances_zero_dist_tol:
  assumes "dist_tol s = Fin 0" "\<not> lv_simplex_collapsed E (simplex s)" "\<not> dlt (move_len s) (Fin 0)"
  shows "check_tolerances E s = s\<lparr>cnt := 0\<rparr>"
  using assms by (simp add: check_tolerances_def)


text \<open>The search with the small initial simplex, evaluated.\<close>

lemma sqrt625: "sqrt (1 / 625) = 1 / 25"
  by (rule real_sqrt_unique) (simp_all add: power2_eq_square)

lemma tight_init_eq:
  "tight_init =
     line_init\<lparr>init_radius := Fin (1 / 1000),
       init_simplex := [\<lparr>v_id = 0, v_perf = [Fin 0], v_term = [Fin (- (1 / 50))]\<rparr>,
                        \<lparr>v_id = 0, v_perf = [Fin 0], v_term = [Fin (1 / 50)]\<rparr>],
       simplex := [\<lparr>v_id = 0, v_perf = [PInf], v_term = [Fin (- (1 / 50))]\<rparr>,
                   \<lparr>v_id = 0, v_perf = [Fin 0], v_term = [Fin (1 / 50)]\<rparr>]\<rparr>"
  by (simp add: tight_init_def line_init_eq init_defs Let_def vertex_norm_spec_def sqrt400
      env_tight_def)

lemma tight_measured_eq:
  "tight_measured =
     line_init\<lparr>init_radius := Fin (1 / 1000),
       init_simplex := [\<lparr>v_id = 0, v_perf = [Fin 0], v_term = [Fin (- (1 / 50))]\<rparr>,
                        \<lparr>v_id = 0, v_perf = [Fin 0], v_term = [Fin (1 / 50)]\<rparr>],
       simplex := [\<lparr>v_id = 1, v_perf = [Fin 1], v_term = [Fin (- (1 / 50))]\<rparr>,
                   \<lparr>v_id = 2, v_perf = [PInf], v_term = [Fin (1 / 50)]\<rparr>],
       best := \<lparr>hp_id = 1, hp_term = [Fin (- (1 / 50))]\<rparr>, best_perf := [Fin 1],
       nextp := NextSimplex 1, index_curr := 1, next_id := 2,
       spans := [\<lparr>span_min = Fin 1, span_max = Fin 1\<rparr>]\<rparr>"
  by (simp add: tight_measured_def tight_init_eq tight_calls_def line_init_eq hpoint0_def
      run_defs nm_algorithm.simps Let_def env_tight_def env_line_def)




lemma tight_reflect_eq:
  "tight_reflect =
     line_init\<lparr>init_radius := Fin (1 / 1000),
       init_simplex := [\<lparr>v_id = 0, v_perf = [Fin 0], v_term = [Fin (- (1 / 50))]\<rparr>,
                        \<lparr>v_id = 0, v_perf = [Fin 0], v_term = [Fin (1 / 50)]\<rparr>],
       simplex := [\<lparr>v_id = 1, v_perf = [Fin 1], v_term = [Fin (- (1 / 50))]\<rparr>,
                   \<lparr>v_id = 2, v_perf = [Fin (1001 / 1000)], v_term = [Fin (1 / 50)]\<rparr>],
       best := \<lparr>hp_id = 1, hp_term = [Fin (- (1 / 50))]\<rparr>, best_perf := [Fin 1],
       state := SIMPLEX_STATE_REFLECT,
       centroid := \<lparr>v_id = 0, v_perf = [Fin 1], v_term = [Fin (- (1 / 50))]\<rparr>,
       nextp := NextSimplex 1, index_worst := 1, index_curr := 0, next_id := 2,
       spans := [\<lparr>span_min = Fin 1, span_max = Fin (1001 / 1000)\<rparr>]\<rparr>"
  by (simp add: tight_reflect_def tight_measured_eq tight_trial2_def line_init_eq
      analyze_defs nm_defs Let_def env_tight_def env_line_def)

lemma tight_fval_err: "fval_err tight_reflect = Fin (1 / 2000000)"
  by (simp add: tight_reflect_eq line_init_eq fval_err_def obj_at_def dsub_def double_of_nat_def)

lemma tight_size_max: "size_max env_tight tight_reflect = Fin (1 / 25)"
  by (simp add: tight_reflect_eq line_init_eq size_max_def env_tight_def env_line_def
      vertex_norm_spec_def dsub_def sqrt625 Let_def)

lemma tight_check: "check_convergence env_tight tight_reflect = tight_reflect"
  by (simp add: tight_reflect_eq line_init_eq check_convergence_def check_tolerances_def flat_def
      obj_at_def env_tight_def env_line_def simplex_collapsed_spec_def)

lemma tight_run:
  "\<exists>s. angel_run env_tight tight_measured
              [Analyze tight_trial2, Generate HFLOW_UNSET hpoint0] = Some ([3], s)
          \<and> state s = SIMPLEX_STATE_REFLECT \<and> cfg_converged s = Some ''0''"
  by (simp add: tight_measured_eq tight_trial2_def line_init_eq
      hpoint0_def run_defs nm_algorithm.simps Let_def env_tight_def env_line_def sqrt625 dsub_def)

text \<open>
  Claim C6 asks that, with \<^verbatim>\<open>DIST_TOL\<close> not configured, the phase converge exactly when
  \<^verbatim>\<open>fval_err < fval_tol\<close> and \<^verbatim>\<open>size_max < size_tol\<close>. In the source \<^verbatim>\<open>dist_tol\<close> is then \<open>0.0\<close>, so the
  branch of the distance test is taken and the two quantities are never compared. In the
  search with the small initial simplex \<^verbatim>\<open>DIST_TOL\<close> is not configured and \<^verbatim>\<open>dist_tol\<close> is \<open>0.0\<close>
  after \<^verbatim>\<open>strategy_init\<close>; on the entry to \<^verbatim>\<open>REFLECT\<close> after the second measurement
  \<^verbatim>\<open>fval_err = 0.0000005\<close> is below \<^verbatim>\<open>fval_tol = 0.0001\<close> and \<^verbatim>\<open>size_max = 0.04\<close> is below
  \<^verbatim>\<open>size_tol = 0.1\<close>, yet \<^verbatim>\<open>check_convergence\<close> leaves the state as it is, and the search goes on:
  the next point is generated with id 3, in state \<^verbatim>\<open>REFLECT\<close>, the session not converged.
\<close>

theorem size_test_not_reached:
  "isnan (hcfg_real env_tight ''DIST_TOL'')
   \<and> dist_tol tight_init = Fin 0
   \<and> state tight_reflect = SIMPLEX_STATE_REFLECT
   \<and> fval_err tight_reflect = Fin (1 / 2000000) \<and> fval_tol tight_reflect = Fin (1 / 10000)
   \<and> size_max env_tight tight_reflect = Fin (1 / 25) \<and> size_tol tight_reflect = Fin (1 / 10)
   \<and> dlt (fval_err tight_reflect) (fval_tol tight_reflect)
   \<and> dlt (size_max env_tight tight_reflect) (size_tol tight_reflect)
   \<and> check_convergence env_tight tight_reflect = tight_reflect
   \<and> (\<exists>s. angel_run env_tight tight_measured
              [Analyze tight_trial2, Generate HFLOW_UNSET hpoint0] = Some ([3], s)
          \<and> state s = SIMPLEX_STATE_REFLECT \<and> cfg_converged s = Some ''0'')"
proof -
  have c: "isnan (hcfg_real env_tight ''DIST_TOL'')"
    by (simp add: env_tight_def env_line_def line_cfg_real_def)
  have i: "dist_tol tight_init = Fin 0"
    by (simp add: tight_init_eq line_init_eq)
  have r: "state tight_reflect = SIMPLEX_STATE_REFLECT"
    "fval_tol tight_reflect = Fin (1 / 10000)" "size_tol tight_reflect = Fin (1 / 10)"
    by (simp_all add: tight_reflect_eq line_init_eq)
  show ?thesis
    using c i r tight_fval_err tight_size_max tight_check tight_run by simp
qed


subsection \<open>The reflected vertex\<close>


lemma dlt_irrefl [simp]: "\<not> dlt a a"
  by (cases a) simp_all




lemma update_centroid_simplex [simp]:
  "simplex (update_centroid E s) = simplex s" "reflect (update_centroid E s) = reflect s"
  "reflect_val (update_centroid E s) = reflect_val s"
  by (simp_all add: update_centroid_def Let_def split_beta)








subsection \<open>The penalty of a violated threshold\<close>



lemma vset_misc [simp]:
  "loose (vset s r v) = loose s" "thresh (vset s r v) = thresh s" "mult (vset s r v) = mult s"
  by (simp_all add: vset_def split: vref.splits)























subsection \<open>The tracked best within a phase\<close>

text \<open>One analysis: the tracked best after the comparison, and what the state machine
  does to it afterwards (nothing, or a reset with the step to the next phase).\<close>

lemma penalised_length [simp]: "length (penalised s ob) = length ob"
  by (simp add: penalised_def Let_def)















end
